theory Spec2Isabelle
  imports Complex_Main "HOL-Library.Char_ord" "HOL-Library.List_Lexorder" "HOL-Library.Log_Nat"
begin

section \<open>Python values\<close>

text \<open>
  The verifier of \<^verbatim>\<open>cv/verifier.py\<close> handles the values a JSON response or a
  configuration file can hold. Strings are sequences of code points below 256. A float is
  its exact rational value (\<open>Finite 0\<close> is \<^verbatim>\<open>0.0\<close>), the negative zero
  \<^verbatim>\<open>-0.0\<close>, or one of the three special values.
\<close>

datatype pyfloat = Finite rat | NegZero | PosInf | NegInf | NaN

datatype pyval =
    PNone
  | PBool bool
  | PInt int
  | PFloat pyfloat
  | PStr string
  | PList "pyval list"
  | PDict "(string \<times> pyval) list"

text \<open>Exceptions: the class that was raised and the text \<^verbatim>\<open>str(e)\<close> gives.\<close>

datatype exn_class =
    ValueError | TypeError | OverflowError | HTTPError | JsonPathError | OtherException

datatype exn = Exn exn_class string

fun exn_str :: "exn \<Rightarrow> string" where
  "exn_str (Exn c m) = m"

fun exn_cls :: "exn \<Rightarrow> exn_class" where
  "exn_cls (Exn c m) = c"

fun type_name :: "pyval \<Rightarrow> string" where
  "type_name PNone = ''NoneType''"
| "type_name (PBool b) = ''bool''"
| "type_name (PInt i) = ''int''"
| "type_name (PFloat f) = ''float''"
| "type_name (PStr s) = ''str''"
| "type_name (PList xs) = ''list''"
| "type_name (PDict kvs) = ''dict''"

subsection \<open>Text of values\<close>

definition digit_char :: "nat \<Rightarrow> char" where
  "digit_char d = ''0123456789'' ! d"

fun str_nat :: "nat \<Rightarrow> string" where
  "str_nat n = (if n < 10 then [digit_char n] else str_nat (n div 10) @ [digit_char (n mod 10)])"

declare str_nat.simps [simp del]

definition str_int :: "int \<Rightarrow> string" where
  "str_int i = (if i < 0 then CHR ''-'' # str_nat (nat (- i)) else str_nat (nat i))"

definition hex_char :: "nat \<Rightarrow> char" where
  "hex_char d = ''0123456789abcdef'' ! d"

text \<open>
  \<^verbatim>\<open>repr\<close> of a string: double quotes when the string holds a single quote and no
  double quote, single quotes otherwise; the backslash, the chosen quote, newline,
  carriage return and tab are escaped, and every other code point that is not printable
  is written \<^verbatim>\<open>\xNN\<close>.
\<close>

definition printable :: "char \<Rightarrow> bool" where
  "printable c = (let n = (of_char c :: nat) in (32 \<le> n \<and> n < 127) \<or> (161 \<le> n \<and> n \<noteq> 173))"

definition repr_char :: "char \<Rightarrow> char \<Rightarrow> string" where
  "repr_char q c =
     (if c = CHR 0x5C then [CHR 0x5C, CHR 0x5C]
      else if c = q then [CHR 0x5C, q]
      else if c = CHR 0x0A then [CHR 0x5C, CHR ''n'']
      else if c = CHR 0x0D then [CHR 0x5C, CHR ''r'']
      else if c = CHR 0x09 then [CHR 0x5C, CHR ''t'']
      else if printable c then [c]
      else [CHR 0x5C, CHR ''x'', hex_char (of_char c div 16), hex_char (of_char c mod 16)])"

definition repr_str :: "string \<Rightarrow> string" where
  "repr_str s =
     (let q = (if CHR 0x27 \<in> set s \<and> CHR 0x22 \<notin> set s then CHR 0x22 else CHR 0x27)
      in q # concat (map (repr_char q) s) @ [q])"

fun join :: "string \<Rightarrow> string list \<Rightarrow> string" where
  "join sep [] = []"
| "join sep [x] = x"
| "join sep (x # y # ys) = x @ sep @ join sep (y # ys)"

text \<open>
  \<^verbatim>\<open>repr\<close> and \<^verbatim>\<open>str\<close> of a value. The text of a float (the shortest decimal
  that reads back as the same double) is a parameter \<open>frepr\<close>.
\<close>

fun py_repr :: "(pyfloat \<Rightarrow> string) \<Rightarrow> pyval \<Rightarrow> string" where
  "py_repr frepr PNone = ''None''"
| "py_repr frepr (PBool b) = (if b then ''True'' else ''False'')"
| "py_repr frepr (PInt i) = str_int i"
| "py_repr frepr (PFloat f) = frepr f"
| "py_repr frepr (PStr s) = repr_str s"
| "py_repr frepr (PList xs) = ''['' @ join '', '' (map (py_repr frepr) xs) @ '']''"
| "py_repr frepr (PDict kvs) =
     ''{'' @ join '', '' (map (\<lambda>kv. repr_str (fst kv) @ '': '' @ py_repr frepr (snd kv)) kvs) @ ''}''"

definition py_str :: "(pyfloat \<Rightarrow> string) \<Rightarrow> pyval \<Rightarrow> string" where
  "py_str frepr v = (case v of PStr s \<Rightarrow> s | _ \<Rightarrow> py_repr frepr v)"


subsection \<open>Conversions\<close>

text \<open>
  \<^verbatim>\<open>float(i)\<close> of an integer rounds to 53 significant bits, ties to even, and raises
  \<^verbatim>\<open>OverflowError\<close> when the rounded value does not fit a double.
\<close>

definition round_to_double :: "nat \<Rightarrow> nat" where
  "round_to_double a =
     (let l = floorlog 2 a in
      if l \<le> 53 then a
      else
        let sh = l - 53; q = a div 2 ^ sh; r = a mod 2 ^ sh; h = 2 ^ (sh - 1);
            q' = (if h < r \<or> (r = h \<and> odd q) then q + 1 else q)
        in q' * 2 ^ sh)"

definition float_of_int :: "int \<Rightarrow> exn + pyfloat" where
  "float_of_int i =
     (let m = round_to_double (nat \<bar>i\<bar>) in
      if 2 ^ 1024 \<le> m then Inl (Exn OverflowError ''int too large to convert to float'')
      else Inr (Finite (of_int (sgn i * int m))))"

text \<open>
  \<^verbatim>\<open>float(value)\<close>. Reading a float from a string (\<open>parse\<close>, \<open>None\<close> when the string
  is not a number) is a parameter.
\<close>

definition py_float :: "(string \<Rightarrow> pyfloat option) \<Rightarrow> pyval \<Rightarrow> exn + pyfloat" where
  "py_float parse v =
     (case v of
        PFloat f \<Rightarrow> Inr f
      | PInt i \<Rightarrow> float_of_int i
      | PBool b \<Rightarrow> Inr (Finite (if b then 1 else 0))
      | PStr s \<Rightarrow>
          (case parse s of
             Some f \<Rightarrow> Inr f
           | None \<Rightarrow> Inl (Exn ValueError (''could not convert string to float: '' @ repr_str s)))
      | _ \<Rightarrow>
          Inl (Exn TypeError
            (''float() argument must be a string or a real number, not '' @ [CHR 0x27]
               @ type_name v @ [CHR 0x27])))"

text \<open>\<^verbatim>\<open>bool(value)\<close>: the truth value of a Python value.\<close>

fun py_bool :: "pyval \<Rightarrow> bool" where
  "py_bool PNone = False"
| "py_bool (PBool b) = b"
| "py_bool (PInt i) = (i \<noteq> 0)"
| "py_bool (PFloat f) = (f \<noteq> Finite 0 \<and> f \<noteq> NegZero)"
| "py_bool (PStr s) = (s \<noteq> [])"
| "py_bool (PList xs) = (xs \<noteq> [])"
| "py_bool (PDict kvs) = (kvs \<noteq> [])"

text \<open>\<^verbatim>\<open>str.lower()\<close> on code points below 256.\<close>

definition lower_char :: "char \<Rightarrow> char" where
  "lower_char c =
     (let n = (of_char c :: nat) in
      if (65 \<le> n \<and> n \<le> 90) \<or> (192 \<le> n \<and> n \<le> 222 \<and> n \<noteq> 215) then char_of (n + 32) else c)"

definition lower :: "string \<Rightarrow> string" where
  "lower s = map lower_char s"

subsection \<open>Comparisons\<close>

text \<open>
  The comparison value of a threshold is \<^verbatim>\<open>int | float | str\<close>. Python compares
  numbers (booleans included) by their exact values, the two zeros being equal, with
  \<^verbatim>\<open>nan\<close> unordered and unequal to everything; strings by code points; and has no
  order between other pairs of these types, which are unequal.
\<close>

datatype threshold_value = TInt int | TFloat pyfloat | TStr string

fun tv_val :: "threshold_value \<Rightarrow> pyval" where
  "tv_val (TInt i) = PInt i"
| "tv_val (TFloat f) = PFloat f"
| "tv_val (TStr s) = PStr s"

fun num_of :: "pyval \<Rightarrow> pyfloat option" where
  "num_of (PBool b) = Some (Finite (if b then 1 else 0))"
| "num_of (PInt i) = Some (Finite (of_int i))"
| "num_of (PFloat f) = Some f"
| "num_of v = None"

definition drop_sign :: "pyfloat \<Rightarrow> pyfloat" where
  "drop_sign f = (case f of NegZero \<Rightarrow> Finite 0 | _ \<Rightarrow> f)"

fun lt_unsigned :: "pyfloat \<Rightarrow> pyfloat \<Rightarrow> bool" where
  "lt_unsigned NaN b = False"
| "lt_unsigned a NaN = False"
| "lt_unsigned (Finite x) (Finite y) = (x < y)"
| "lt_unsigned (Finite x) PosInf = True"
| "lt_unsigned NegInf (Finite y) = True"
| "lt_unsigned NegInf PosInf = True"
| "lt_unsigned a b = False"

definition f_lt :: "pyfloat \<Rightarrow> pyfloat \<Rightarrow> bool" where
  "f_lt a b = lt_unsigned (drop_sign a) (drop_sign b)"

definition f_eq :: "pyfloat \<Rightarrow> pyfloat \<Rightarrow> bool" where
  "f_eq a b = (a \<noteq> NaN \<and> b \<noteq> NaN \<and> drop_sign a = drop_sign b)"

definition f_le :: "pyfloat \<Rightarrow> pyfloat \<Rightarrow> bool" where
  "f_le a b = (f_lt a b \<or> f_eq a b)"

text \<open>An ordering comparison is \<open>None\<close> where Python raises \<^verbatim>\<open>TypeError\<close>.\<close>

definition py_cmp ::
  "(pyfloat \<Rightarrow> pyfloat \<Rightarrow> bool) \<Rightarrow> (string \<Rightarrow> string \<Rightarrow> bool) \<Rightarrow> pyval \<Rightarrow> threshold_value \<Rightarrow> bool option"
where
  "py_cmp fop sop v e =
     (case (num_of v, num_of (tv_val e)) of
        (Some a, Some b) \<Rightarrow> Some (fop a b)
      | _ \<Rightarrow> (case (v, e) of (PStr s, TStr t) \<Rightarrow> Some (sop s t) | _ \<Rightarrow> None))"

definition py_less :: "pyval \<Rightarrow> threshold_value \<Rightarrow> bool option" where
  "py_less = py_cmp f_lt (\<lambda>s t. s < t)"

definition py_greater :: "pyval \<Rightarrow> threshold_value \<Rightarrow> bool option" where
  "py_greater = py_cmp (\<lambda>a b. f_lt b a) (\<lambda>s t. t < s)"

definition py_less_eq :: "pyval \<Rightarrow> threshold_value \<Rightarrow> bool option" where
  "py_less_eq = py_cmp f_le (\<lambda>s t. s \<le> t)"

definition py_greater_eq :: "pyval \<Rightarrow> threshold_value \<Rightarrow> bool option" where
  "py_greater_eq = py_cmp (\<lambda>a b. f_le b a) (\<lambda>s t. t \<le> s)"

definition py_eq :: "pyval \<Rightarrow> threshold_value \<Rightarrow> bool" where
  "py_eq v e = (case py_cmp f_eq (\<lambda>s t. s = t) v e of Some b \<Rightarrow> b | None \<Rightarrow> False)"

definition not_supported :: "string \<Rightarrow> pyval \<Rightarrow> threshold_value \<Rightarrow> exn" where
  "not_supported op v e =
     Exn TypeError
       ([CHR 0x27] @ op @ [CHR 0x27] @ '' not supported between instances of '' @ [CHR 0x27]
          @ type_name v @ [CHR 0x27] @ '' and '' @ [CHR 0x27] @ type_name (tv_val e) @ [CHR 0x27])"

section \<open>Data model (\<^verbatim>\<open>cv/models.py\<close>)\<close>

record query_config =
  endpoint :: string
  http_method :: string
  headers :: "(string \<times> string) list"
  body :: pyval
  params :: "(string \<times> pyval) list"
  request_timeout :: int

record extract_config =
  path :: string
  target_type :: string
  default_value :: pyval

record threshold_evaluator =
  operator :: string
  evaluator_value :: threshold_value

record check =
  name :: string
  description :: "string option"
  query :: query_config
  extraction :: extract_config
  evaluate :: threshold_evaluator

datatype evaluation_mode = ALL_PASS | ANY_PASS | THRESHOLD

record evaluation_config =
  mode :: evaluation_mode
  min_passed :: "int option"

record output_config =
  include_details :: bool
  format :: string

record verification_config =
  api_endpoint :: string
  checks :: "check list"
  evaluation :: evaluation_config
  output_options :: output_config
  poll_interval :: int
  timeout :: int

record check_result =
  check_name :: string
  success :: bool
  result_value :: pyval
  expected :: pyval
  message :: string
  timestamp :: int
  poll_number :: nat

datatype verification_status = PASSED | FAILED | TIMEOUT

record verification_result =
  status :: verification_status
  checks_passed :: nat
  checks_failed :: nat
  total_polls :: nat
  duration :: int
  detailed_results :: "check_result list"
  failure_reason :: "string option"

text \<open>
  The validators of \<^verbatim>\<open>EvaluationConfig\<close> and \<^verbatim>\<open>VerificationConfig\<close>: a
  configuration object exists only when they raise nothing.
\<close>

definition validate_threshold_mode :: "evaluation_config \<Rightarrow> exn + evaluation_config" where
  "validate_threshold_mode ev =
     (if mode ev = THRESHOLD then
        (case min_passed ev of
           None \<Rightarrow> Inl (Exn ValueError ''min_passed is required when mode is THRESHOLD'')
         | Some k \<Rightarrow>
             if k < 1 then Inl (Exn ValueError ''min_passed must be at least 1'') else Inr ev)
      else Inr ev)"

definition validate_threshold_against_checks :: "verification_config \<Rightarrow> exn + verification_config" where
  "validate_threshold_against_checks cfg =
     (case min_passed (evaluation cfg) of
        None \<Rightarrow> Inr cfg
      | Some k \<Rightarrow>
          if mode (evaluation cfg) = THRESHOLD \<and> k \<noteq> 0 \<and> int (length (checks cfg)) < k then
            Inl (Exn ValueError
              (''min_passed ('' @ str_int k @ '') cannot exceed number of checks (''
                 @ str_nat (length (checks cfg)) @ '')''))
          else Inr cfg)"

section \<open>The platform\<close>

text \<open>
  What the verifier calls and the repository does not define: the clock, \<^verbatim>\<open>time.sleep\<close>,
  \<^verbatim>\<open>datetime.now\<close>, the HTTP transport, the JSONPath library (parsing the path and
  finding its matches, in document order), and the reading and printing of floats. The
  first four act on a world \<open>'w\<close>, which each call may change. Clock readings are taken
  as real numbers of seconds. Logging is left out.
\<close>

record 'w platform =
  py_time :: "'w \<Rightarrow> real \<times> 'w"
  py_sleep :: "int \<Rightarrow> 'w \<Rightarrow> 'w"
  py_now :: "'w \<Rightarrow> int \<times> 'w"
  http_request :: "query_config \<Rightarrow> 'w \<Rightarrow> (exn + pyval) \<times> 'w"
  jsonpath_find :: "string \<Rightarrow> pyval \<Rightarrow> exn + pyval list"
  parse_float :: "string \<Rightarrow> pyfloat option"
  float_repr :: "pyfloat \<Rightarrow> string"

text \<open>\<^verbatim>\<open>int(x)\<close> of a float truncates towards zero.\<close>

definition py_int :: "real \<Rightarrow> int" where
  "py_int x = (if 0 \<le> x then \<lfloor>x\<rfloor> else \<lceil>x\<rceil>)"

text \<open>
  A float plus an integer, as in \<^verbatim>\<open>start_time + timeout\<close>: the integer is turned
  into a float first, which raises \<^verbatim>\<open>OverflowError\<close> beyond the range of a double;
  the sum is then taken as exact.
\<close>

definition float_plus_int :: "real \<Rightarrow> int \<Rightarrow> exn + real" where
  "float_plus_int t i =
     (case float_of_int i of Inl x \<Rightarrow> Inl x | Inr f \<Rightarrow> Inr (t + real_of_int i))"

text \<open>
  \<^verbatim>\<open>time.sleep\<close> of an integer number of seconds: it raises \<^verbatim>\<open>OverflowError\<close>
  when the length in nanoseconds does not fit 64 bits, and \<^verbatim>\<open>ValueError\<close> on a
  negative length.
\<close>

definition time_sleep :: "'w platform \<Rightarrow> int \<Rightarrow> 'w \<Rightarrow> exn + 'w" where
  "time_sleep P secs w =
     (if secs < - 9223372036 \<or> 9223372036 < secs then
        Inl (Exn OverflowError ''timestamp too large to convert to C _PyTime_t'')
      else if secs < 0 then Inl (Exn ValueError ''sleep length must be non-negative'')
      else Inr (py_sleep P secs w))"

definition quoted :: "string \<Rightarrow> string" where
  "quoted s = CHR 0x27 # s @ [CHR 0x27]"

section \<open>The verifier (\<^verbatim>\<open>cv/verifier.py\<close>)\<close>

subsection \<open>\<^verbatim>\<open>_extract_value\<close>\<close>

definition extract_value :: "'w platform \<Rightarrow> pyval \<Rightarrow> string \<Rightarrow> exn + pyval" where
  "extract_value P data p =
     (let attempt =
        (case jsonpath_find P p data of
           Inl e \<Rightarrow> Inl e
         | Inr matches \<Rightarrow>
             (case matches of
                [] \<Rightarrow>
                  Inl (Exn ValueError
                    (''JSONPath '' @ quoted p @ '' found no matches in response: ''
                       @ py_str (float_repr P) data))
              | m # ms \<Rightarrow> Inr m))
      in case attempt of
           Inl e \<Rightarrow>
             Inl (Exn ValueError
               (''Failed to extract value using JSONPath '' @ quoted p @ '': '' @ exn_str e))
         | Inr v \<Rightarrow> Inr v)"

subsection \<open>\<^verbatim>\<open>_convert_type\<close>\<close>

definition convert_type :: "'w platform \<Rightarrow> pyval \<Rightarrow> string \<Rightarrow> pyval \<Rightarrow> exn + pyval" where
  "convert_type P v expected_type dflt =
     (let attempt =
        (if expected_type = ''number'' then
           (case py_float (parse_float P) v of Inl e \<Rightarrow> Inl e | Inr f \<Rightarrow> Inr (PFloat f))
         else if expected_type = ''string'' then Inr (PStr (py_str (float_repr P) v))
         else if expected_type = ''boolean'' then
           (case v of
              PBool b \<Rightarrow> Inr v
            | PStr s \<Rightarrow> Inr (PBool (lower s \<notin> set [''false'', ''0'', []]))
            | _ \<Rightarrow> Inr (PBool (py_bool v)))
         else if expected_type = ''json'' then Inr v
         else Inl (Exn ValueError (''Unknown type: '' @ expected_type)))
      in case attempt of
           Inr r \<Rightarrow> Inr r
         | Inl e \<Rightarrow>
             if exn_cls e = ValueError \<or> exn_cls e = TypeError then
               (if dflt \<noteq> PNone then Inr dflt
                else Inl (Exn ValueError
                  (''Cannot convert '' @ quoted (py_str (float_repr P) v) @ '' to '' @ expected_type
                     @ '' and no default provided'')))
             else Inl e)"

subsection \<open>\<^verbatim>\<open>_evaluate_check\<close>\<close>

definition ordered :: "string \<Rightarrow> pyval \<Rightarrow> threshold_value \<Rightarrow> bool option \<Rightarrow> exn + bool" where
  "ordered op v e r = (case r of Some b \<Rightarrow> Inr b | None \<Rightarrow> Inl (not_supported op v e))"

definition evaluate_check ::
  "'w platform \<Rightarrow> threshold_evaluator \<Rightarrow> pyval \<Rightarrow> exn + (bool \<times> string)"
where
  "evaluate_check P evaluator v =
     (let e = evaluator_value evaluator; op = operator evaluator;
          comparison =
            (if op = ''<'' then ordered op v e (py_less v e)
             else if op = ''>'' then ordered op v e (py_greater v e)
             else if op = ''<='' then ordered op v e (py_less_eq v e)
             else if op = ''>='' then ordered op v e (py_greater_eq v e)
             else if op = ''=='' then Inr (py_eq v e)
             else if op = ''!='' then Inr (\<not> py_eq v e)
             else Inl (Exn ValueError (''Unknown operator: '' @ op)))
      in case comparison of
           Inl x \<Rightarrow> Inl x
         | Inr ok \<Rightarrow>
             Inr (ok,
               if ok then
                 ''value '' @ py_str (float_repr P) v @ '' '' @ op @ '' ''
                   @ py_str (float_repr P) (tv_val e)
               else
                 ''value '' @ py_str (float_repr P) v @ '' not '' @ op @ '' ''
                   @ py_str (float_repr P) (tv_val e)))"

subsection \<open>\<^verbatim>\<open>_execute_check\<close> and \<^verbatim>\<open>_execute_poll\<close>\<close>

definition execute_check ::
  "'w platform \<Rightarrow> check \<Rightarrow> nat \<Rightarrow> 'w \<Rightarrow> (exn + check_result) \<times> 'w"
where
  "execute_check P chk poll_no w =
     (case http_request P (query chk) w of
        (Inl x, w1) \<Rightarrow> (Inl x, w1)
      | (Inr response, w1) \<Rightarrow>
          (case extract_value P response (path (extraction chk)) of
             Inl x \<Rightarrow> (Inl x, w1)
           | Inr raw \<Rightarrow>
               (case convert_type P raw (target_type (extraction chk))
                       (default_value (extraction chk)) of
                  Inl x \<Rightarrow> (Inl x, w1)
                | Inr v \<Rightarrow>
                    (case evaluate_check P (evaluate chk) v of
                       Inl x \<Rightarrow> (Inl x, w1)
                     | Inr (ok, msg) \<Rightarrow>
                         (case py_now P w1 of
                            (ts, w2) \<Rightarrow>
                              (Inr \<lparr>check_name = name chk, success = ok, result_value = v,
                                    expected =
                                      PStr (operator (evaluate chk) @ '' ''
                                        @ py_str (float_repr P)
                                            (tv_val (evaluator_value (evaluate chk)))),
                                    message = msg, timestamp = ts, poll_number = poll_no\<rparr>,
                               w2))))))"

text \<open>
  The handler of \<^verbatim>\<open>_execute_poll\<close>: \<^verbatim>\<open>except Exception\<close> takes every exception
  class above.
\<close>

definition error_result :: "check \<Rightarrow> exn \<Rightarrow> int \<Rightarrow> nat \<Rightarrow> check_result" where
  "error_result chk x ts poll_no =
     \<lparr>check_name = name chk, success = False, result_value = PNone, expected = PNone,
      message = ''Error: '' @ exn_str x, timestamp = ts, poll_number = poll_no\<rparr>"

fun poll_checks ::
  "'w platform \<Rightarrow> check list \<Rightarrow> nat \<Rightarrow> check_result list \<Rightarrow> 'w \<Rightarrow> check_result list \<times> 'w"
where
  "poll_checks P [] poll_no results w = (results, w)"
| "poll_checks P (chk # rest) poll_no results w =
     (case execute_check P chk poll_no w of
        (Inr result, w1) \<Rightarrow> poll_checks P rest poll_no (results @ [result]) w1
      | (Inl x, w1) \<Rightarrow>
          (case py_now P w1 of
             (ts, w2) \<Rightarrow> poll_checks P rest poll_no (results @ [error_result chk x ts poll_no]) w2))"

definition execute_poll ::
  "'w platform \<Rightarrow> verification_config \<Rightarrow> nat \<Rightarrow> 'w \<Rightarrow> check_result list \<times> 'w"
where
  "execute_poll P cfg poll_no w = poll_checks P (checks cfg) poll_no [] w"

subsection \<open>\<^verbatim>\<open>_evaluate_overall\<close>, \<^verbatim>\<open>_get_latest_results\<close>, \<^verbatim>\<open>_build_result\<close>\<close>

definition evaluate_overall ::
  "verification_config \<Rightarrow> check_result list \<Rightarrow> verification_status \<times> string"
where
  "evaluate_overall cfg poll_results =
     (let passed_count = length (filter success poll_results);
          failed_count = length poll_results - passed_count;
          m = mode (evaluation cfg)
      in
        if m = ALL_PASS then
          (if passed_count = length poll_results then (PASSED, ''All checks passed'')
           else (FAILED, str_nat failed_count @ '' check(s) failed''))
        else if m = ANY_PASS then
          (if 0 < passed_count then (PASSED, ''At least one check passed'')
           else (FAILED, ''All checks failed''))
        else if m = THRESHOLD then
          (let need = (case min_passed (evaluation cfg) of
                         None \<Rightarrow> 1
                       | Some k \<Rightarrow> if k = 0 then 1 else k)
           in
             if need \<le> int passed_count then
               (PASSED, str_nat passed_count @ '' checks passed (>= '' @ str_int need @ '')'')
             else
               (FAILED,
                ''Only '' @ str_nat passed_count @ '' checks passed (need >= '' @ str_int need
                  @ '')''))
        else (FAILED, ''Checks not yet passing''))"

definition get_latest_results :: "check_result list \<Rightarrow> nat \<Rightarrow> check_result list" where
  "get_latest_results all_results poll_count =
     filter (\<lambda>r. poll_number r = poll_count) all_results"

definition build_result ::
  "verification_config \<Rightarrow> verification_status \<Rightarrow> check_result list \<Rightarrow> nat \<Rightarrow> int
     \<Rightarrow> string option \<Rightarrow> verification_result"
where
  "build_result cfg st all_results poll_count secs reason =
     (let latest_poll_results = get_latest_results all_results poll_count;
          passed = length (filter success latest_poll_results);
          failed = length latest_poll_results - passed
      in \<lparr>status = st, checks_passed = passed, checks_failed = failed,
          total_polls = poll_count, duration = secs,
          detailed_results = (if include_details (output_options cfg) then all_results else []),
          failure_reason = reason\<rparr>)"

subsection \<open>\<^verbatim>\<open>run\<close>\<close>

text \<open>
  The \<^verbatim>\<open>while\<close> loop of \<^verbatim>\<open>run\<close>, with its local state \<open>poll_count\<close> and
  \<open>all_results\<close>. It ends in one of three ways: the \<^verbatim>\<open>return\<close> of a poll that
  passed, with the arguments it gives to \<^verbatim>\<open>_build_result\<close>; the end of the loop (the
  condition is false, or \<^verbatim>\<open>break\<close>); or an exception, of the sum
  \<^verbatim>\<open>time.time() + poll_interval\<close> or of \<^verbatim>\<open>time.sleep\<close>. A loop that goes on for
  ever has the value \<open>None\<close>.
\<close>

datatype loop_exit =
    Passed_in_loop "check_result list" nat int
  | Loop_ended "check_result list" nat

partial_function (option) poll_loop ::
  "'w platform \<Rightarrow> verification_config \<Rightarrow> real \<Rightarrow> real \<Rightarrow> nat \<Rightarrow> check_result list \<Rightarrow> 'w
     \<Rightarrow> ((exn + loop_exit) \<times> 'w) option"
where
  "poll_loop P cfg start_time end_time poll_count all_results w =
     (case py_time P w of
        (t0, w0) \<Rightarrow>
          if t0 < end_time then
            (case py_time P w0 of
               (t1, w1) \<Rightarrow>
                 (case execute_poll P cfg (poll_count + 1) w1 of
                    (poll_results, w2) \<Rightarrow>
                      if fst (evaluate_overall cfg poll_results) = PASSED then
                        (case py_time P w2 of
                           (t2, w3) \<Rightarrow>
                             Some (Inr (Passed_in_loop (all_results @ poll_results)
                                     (poll_count + 1) (py_int (t2 - start_time))), w3))
                      else
                        (case py_time P w2 of
                           (t3, w3) \<Rightarrow>
                             (case float_plus_int t3 (poll_interval cfg) of
                                Inl x \<Rightarrow> Some (Inl x, w3)
                              | Inr next_time \<Rightarrow>
                                  if next_time < end_time then
                                    (case time_sleep P (poll_interval cfg) w3 of
                                       Inl x \<Rightarrow> Some (Inl x, w3)
                                     | Inr w4 \<Rightarrow>
                                         poll_loop P cfg start_time end_time (poll_count + 1)
                                           (all_results @ poll_results) w4)
                                  else
                                    Some (Inr (Loop_ended (all_results @ poll_results)
                                            (poll_count + 1)), w3)))))
          else Some (Inr (Loop_ended all_results poll_count), w0))"

definition run ::
  "'w platform \<Rightarrow> verification_config \<Rightarrow> 'w \<Rightarrow> ((exn + verification_result) \<times> 'w) option"
where
  "run P cfg w =
     (case py_time P w of
        (start_time, w0) \<Rightarrow>
          (case float_plus_int start_time (timeout cfg) of
             Inl x \<Rightarrow> Some (Inl x, w0)
           | Inr end_time \<Rightarrow>
               (case poll_loop P cfg start_time end_time 0 [] w0 of
                  None \<Rightarrow> None
                | Some (Inl x, w1) \<Rightarrow> Some (Inl x, w1)
                | Some (Inr (Passed_in_loop all_results poll_count secs), w1) \<Rightarrow>
                    Some (Inr (build_result cfg PASSED all_results poll_count secs None), w1)
                | Some (Inr (Loop_ended all_results poll_count), w1) \<Rightarrow>
                    (case py_time P w1 of
                       (t, w2) \<Rightarrow>
                         (let secs = py_int (t - start_time) in
                          if all_results \<noteq> [] then
                            (if fst (evaluate_overall cfg
                                   (get_latest_results all_results poll_count)) = PASSED
                             then
                               Some (Inr (build_result cfg PASSED all_results poll_count secs
                                       None), w2)
                             else
                               Some (Inr (build_result cfg FAILED all_results poll_count secs
                                       (Some (''Checks did not pass within timeout (''
                                          @ str_int secs @ ''s)''))), w2))
                          else
                            Some (Inr (build_result cfg TIMEOUT all_results poll_count secs
                                    (Some ''Timeout before any polls completed'')), w2))))))"

text \<open>What a loop exit holds of the loop's state.\<close>

fun exit_results :: "loop_exit \<Rightarrow> check_result list" where
  "exit_results (Passed_in_loop all_results poll_count secs) = all_results"
| "exit_results (Loop_ended all_results poll_count) = all_results"

fun exit_polls :: "loop_exit \<Rightarrow> nat" where
  "exit_polls (Passed_in_loop all_results poll_count secs) = poll_count"
| "exit_polls (Loop_ended all_results poll_count) = poll_count"

section \<open>A platform for examples\<close>

text \<open>
  A simulated platform, in the manner of the mocked transport of
  \<^verbatim>\<open>tests/test_verifier.py\<close>: the world is a clock and a queue of prepared responses.
  Reading the clock takes no time, a request takes one second and answers with the next
  response of the queue (an HTTP error when the queue is empty), and sleeping moves the
  clock. The JSONPath finder knows the paths made of \<^verbatim>\<open>$\<close>, \<^verbatim>\<open>.name\<close>,
  \<^verbatim>\<open>[i]\<close> and \<^verbatim>\<open>[*]\<close> and rejects every other path; a string is read as a
  float when it is made of one to fifteen decimal digits, and no other string is a
  number for this reader; a float is printed when it is an integer of less than sixteen
  digits. The examples keep within these limits. The theorems below hold for every
  platform; this one gives them concrete inputs.
\<close>

record sim_world =
  sim_clock :: real
  sim_queue :: "(exn + pyval) list"

datatype path_step = Field string | Index nat | Wildcard

datatype scan_state = Between | In_field string | In_index string

definition is_digit :: "char \<Rightarrow> bool" where
  "is_digit c = (48 \<le> (of_char c :: nat) \<and> (of_char c :: nat) \<le> 57)"

definition nat_of_digits :: "string \<Rightarrow> nat" where
  "nat_of_digits ds = foldl (\<lambda>n c. 10 * n + (of_char c - 48)) 0 ds"

fun scan :: "string \<Rightarrow> path_step list \<Rightarrow> scan_state \<Rightarrow> path_step list option" where
  "scan [] steps Between = Some steps"
| "scan [] steps (In_field nm) = (if nm = [] then None else Some (steps @ [Field nm]))"
| "scan [] steps (In_index ds) = None"
| "scan (c # cs) steps Between =
     (if c = CHR ''.'' then scan cs steps (In_field [])
      else if c = CHR ''['' then scan cs steps (In_index [])
      else None)"
| "scan (c # cs) steps (In_field nm) =
     (if c = CHR ''.'' then
        (if nm = [] then None else scan cs (steps @ [Field nm]) (In_field []))
      else if c = CHR ''['' then
        (if nm = [] then None else scan cs (steps @ [Field nm]) (In_index []))
      else scan cs steps (In_field (nm @ [c])))"
| "scan (c # cs) steps (In_index ds) =
     (if c = CHR '']'' then
        (if ds = ''*'' then scan cs (steps @ [Wildcard]) Between
         else if ds \<noteq> [] \<and> list_all is_digit ds then
           scan cs (steps @ [Index (nat_of_digits ds)]) Between
         else None)
      else scan cs steps (In_index (ds @ [c])))"

fun find_steps :: "path_step list \<Rightarrow> pyval \<Rightarrow> pyval list" where
  "find_steps [] v = [v]"
| "find_steps (Field k # rest) v =
     (case v of
        PDict kvs \<Rightarrow> (case map_of kvs k of Some x \<Rightarrow> find_steps rest x | None \<Rightarrow> [])
      | _ \<Rightarrow> [])"
| "find_steps (Index i # rest) v =
     (case v of
        PList xs \<Rightarrow> (if i < length xs then find_steps rest (xs ! i) else [])
      | _ \<Rightarrow> [])"
| "find_steps (Wildcard # rest) v =
     (case v of
        PList xs \<Rightarrow> concat (map (find_steps rest) xs)
      | PDict kvs \<Rightarrow> concat (map (\<lambda>kv. find_steps rest (snd kv)) kvs)
      | _ \<Rightarrow> [])"

definition sim_find :: "string \<Rightarrow> pyval \<Rightarrow> exn + pyval list" where
  "sim_find p data =
     (case p of
        [] \<Rightarrow> Inl (Exn JsonPathError ''Parse error'')
      | c # cs \<Rightarrow>
          if c = CHR ''$'' then
            (case scan cs [] Between of
               Some steps \<Rightarrow> Inr (find_steps steps data)
             | None \<Rightarrow> Inl (Exn JsonPathError ''Parse error''))
          else Inl (Exn JsonPathError ''Parse error''))"

definition sim_parse_float :: "string \<Rightarrow> pyfloat option" where
  "sim_parse_float s =
     (if s \<noteq> [] \<and> length s \<le> 15 \<and> list_all is_digit s
      then Some (Finite (of_nat (nat_of_digits s))) else None)"

definition sim_float_repr :: "pyfloat \<Rightarrow> string" where
  "sim_float_repr f =
     (case f of
        Finite x \<Rightarrow>
          (if x = of_int \<lfloor>x\<rfloor> \<and> \<bar>x\<bar> < 10 ^ 15 then str_int \<lfloor>x\<rfloor> @ ''.0'' else ''?'')
      | NegZero \<Rightarrow> ''-0.0''
      | PosInf \<Rightarrow> ''inf''
      | NegInf \<Rightarrow> ''-inf''
      | NaN \<Rightarrow> ''nan'')"

definition sim_request :: "query_config \<Rightarrow> sim_world \<Rightarrow> (exn + pyval) \<times> sim_world" where
  "sim_request q w =
     (case sim_queue w of
        [] \<Rightarrow> (Inl (Exn HTTPError ''no response''), w\<lparr>sim_clock := sim_clock w + 1\<rparr>)
      | r # rs \<Rightarrow> (r, w\<lparr>sim_clock := sim_clock w + 1, sim_queue := rs\<rparr>))"

definition sim :: "sim_world platform" where
  "sim =
     \<lparr>py_time = (\<lambda>w. (sim_clock w, w)),
      py_sleep = (\<lambda>secs w. w\<lparr>sim_clock := sim_clock w + real_of_int secs\<rparr>),
      py_now = (\<lambda>w. (\<lfloor>sim_clock w\<rfloor>, w)),
      http_request = sim_request,
      jsonpath_find = sim_find,
      parse_float = sim_parse_float,
      float_repr = sim_float_repr\<rparr>"

text \<open>
  The check of the repository's tests: the second element of the first result's value,
  as a number, must be below 10.
\<close>

definition error_count_check :: check where
  "error_count_check =
     \<lparr>name = ''error_count_check'', description = None,
      query = \<lparr>endpoint = ''/api/v1/query'', http_method = ''POST'', headers = [],
                body = PStr ''query=error_count'', params = [], request_timeout = 30\<rparr>,
      extraction = \<lparr>path = ''$.data.result[0].value[1]'', target_type = ''number'',
                     default_value = PNone\<rparr>,
      evaluate = \<lparr>operator = ''<'', evaluator_value = TInt 10\<rparr>\<rparr>"

definition latency_check :: check where
  "latency_check = error_count_check\<lparr>name := ''latency_check''\<rparr>"

definition prometheus :: "string \<Rightarrow> pyval" where
  "prometheus v =
     PDict [(''status'', PStr ''success''),
            (''data'', PDict [(''resultType'', PStr ''vector''),
               (''result'', PList [PDict [(''metric'', PDict [(''__name__'', PStr ''error_count'')]),
                                          (''value'', PList [PInt 1234567890, PStr v])]])])]"

definition test_config ::
  "check list \<Rightarrow> evaluation_mode \<Rightarrow> int option \<Rightarrow> bool \<Rightarrow> int \<Rightarrow> verification_config"
where
  "test_config chks m k details secs =
     \<lparr>api_endpoint = ''http://prometheus:9090'', checks = chks,
      evaluation = \<lparr>mode = m, min_passed = k\<rparr>,
      output_options = \<lparr>include_details = details, format = ''json''\<rparr>,
      poll_interval = 1, timeout = secs\<rparr>"

definition sim_start :: "(exn + pyval) list \<Rightarrow> sim_world" where
  "sim_start q = \<lparr>sim_clock = 0, sim_queue = q\<rparr>"

text \<open>A result with nothing but a name and a verdict, and the result of the check above
  on the response \<^verbatim>\<open>"50"\<close>.\<close>

definition outcome :: "string \<Rightarrow> bool \<Rightarrow> check_result" where
  "outcome nm ok =
     \<lparr>check_name = nm, success = ok, result_value = PNone, expected = PNone, message = [],
      timestamp = 0, poll_number = 1\<rparr>"

definition too_many_errors :: "int \<Rightarrow> nat \<Rightarrow> check_result" where
  "too_many_errors ts n =
     \<lparr>check_name = ''error_count_check'', success = False, result_value = PFloat (Finite 50),
      expected = PStr ''< 10'', message = ''value 50.0 not < 10'', timestamp = ts,
      poll_number = n\<rparr>"

text \<open>A response whose text is longer than 200 characters.\<close>

definition long_text :: string where
  "long_text =
     ''error budget exhausted in region eu-west-1: 0123456789012345678901234567890123456789''
     @ ''0123456789012345678901234567890123456789012345678901234567890123456789012345678901''
     @ ''2345678901234567890123456789012345678901234567890123456789012345678901234567890123''"

section \<open>Notions used by the theorems\<close>

text \<open>
  The five letters of \<^verbatim>\<open>false\<close> in any mix of upper and lower case.
\<close>

definition is_false_word :: "string \<Rightarrow> bool" where
  "is_false_word s =
     (case s of
        [c1, c2, c3, c4, c5] \<Rightarrow>
          (c1 = CHR ''f'' \<or> c1 = CHR ''F'') \<and> (c2 = CHR ''a'' \<or> c2 = CHR ''A'')
            \<and> (c3 = CHR ''l'' \<or> c3 = CHR ''L'') \<and> (c4 = CHR ''s'' \<or> c4 = CHR ''S'')
            \<and> (c5 = CHR ''e'' \<or> c5 = CHR ''E'')
      | _ \<Rightarrow> False)"

text \<open>
  What Python's comparisons are, in the words of the order of the rationals and of the
  strings: \<open>holds\<close> is the relation an operator stands for; \<open>rational\<close> is the value of
  a finite number, a boolean being 1 or 0 and both zeros 0; \<open>verdict\<close> is the success
  that \<^verbatim>\<open>_evaluate_check\<close> returns, if it returns.
\<close>

definition holds :: "string \<Rightarrow> 'a::linorder \<Rightarrow> 'a \<Rightarrow> bool" where
  "holds op a b =
     (if op = ''<'' then a < b
      else if op = ''>'' then b < a
      else if op = ''<='' then a \<le> b
      else if op = ''>='' then b \<le> a
      else if op = ''=='' then a = b
      else a \<noteq> b)"

fun rational :: "pyval \<Rightarrow> rat option" where
  "rational (PBool b) = Some (if b then 1 else 0)"
| "rational (PInt i) = Some (of_int i)"
| "rational (PFloat (Finite x)) = Some x"
| "rational (PFloat NegZero) = Some 0"
| "rational v = None"

fun is_number :: "pyval \<Rightarrow> bool" where
  "is_number (PBool b) = True"
| "is_number (PInt i) = True"
| "is_number (PFloat f) = True"
| "is_number v = False"

fun is_string :: "pyval \<Rightarrow> bool" where
  "is_string (PStr s) = True"
| "is_string v = False"

definition verdict :: "'w platform \<Rightarrow> string \<Rightarrow> pyval \<Rightarrow> threshold_value \<Rightarrow> bool option" where
  "verdict P op v e =
     (case evaluate_check P \<lparr>operator = op, evaluator_value = e\<rparr> v of
        Inl x \<Rightarrow> None
      | Inr r \<Rightarrow> Some (fst r))"

text \<open>
  The invariant of the loop of \<^verbatim>\<open>run\<close>: the results of each poll from 1 to
  \<open>poll_count\<close> are one per configured check, in the order of the checks; no result has
  another poll number; and the polls follow each other in the list.
\<close>

definition loop_inv :: "verification_config \<Rightarrow> check_result list \<Rightarrow> nat \<Rightarrow> bool" where
  "loop_inv cfg all_results poll_count =
     ((\<forall>p. map check_name (get_latest_results all_results p)
             = (if 1 \<le> p \<and> p \<le> poll_count then map name (checks cfg) else []))
      \<and> map poll_number all_results
           = concat (map (replicate (length (checks cfg))) [1..<Suc poll_count])
      \<and> length all_results = poll_count * length (checks cfg))"

definition exit_inv :: "verification_config \<Rightarrow> loop_exit \<Rightarrow> bool" where
  "exit_inv cfg ex =
     (loop_inv cfg (exit_results ex) (exit_polls ex)
      \<and> (case ex of Passed_in_loop rs n secs \<Rightarrow> 0 < n | Loop_ended rs n \<Rightarrow> True))"

text \<open>
  The verdict on the last poll: at the head of the loop no poll has been made or the
  last one did not pass, and at the exit of the loop the last poll passed exactly when
  the loop returned from inside.
\<close>

definition not_passed :: "verification_config \<Rightarrow> check_result list \<Rightarrow> nat \<Rightarrow> bool" where
  "not_passed cfg all_results poll_count =
     (poll_count = 0
      \<or> fst (evaluate_overall cfg (get_latest_results all_results poll_count)) \<noteq> PASSED)"

definition exit_verdict :: "verification_config \<Rightarrow> loop_exit \<Rightarrow> bool" where
  "exit_verdict cfg ex =
     (case ex of
        Passed_in_loop rs n secs \<Rightarrow> fst (evaluate_overall cfg (get_latest_results rs n)) = PASSED
      | Loop_ended rs n \<Rightarrow> not_passed cfg rs n)"

text \<open>
  A clock that does not go back: \<open>now\<close> is the time of a world, a reading of the clock
  lies between the time before and the time after it, sleeping takes at least the time
  asked for, and a request or \<^verbatim>\<open>datetime.now\<close> does not move the time back.
\<close>

definition steady_clock :: "'w platform \<Rightarrow> ('w \<Rightarrow> real) \<Rightarrow> bool" where
  "steady_clock P now =
     ((\<forall>w. now w \<le> fst (py_time P w) \<and> fst (py_time P w) \<le> now (snd (py_time P w)))
      \<and> (\<forall>secs w. 0 \<le> secs \<longrightarrow> now w + real_of_int secs \<le> now (py_sleep P secs w))
      \<and> (\<forall>q w. now w \<le> now (snd (http_request P q w)))
      \<and> (\<forall>w. now w \<le> now (snd (py_now P w))))"

section \<open>Evaluating the definitions\<close>

text \<open>The equations that compute the definitions on concrete inputs.\<close>

lemmas text_defs = str_nat.simps digit_char_def py_str_def repr_str_def repr_char_def printable_def
  str_int_def quoted_def Let_def
lemmas sim_defs = sim_def sim_start_def sim_find_def sim_request_def sim_parse_float_def
  sim_float_repr_def is_digit_def nat_of_digits_def test_config_def error_count_check_def
  prometheus_def

lemma float_of_int_small:
  assumes "\<bar>i\<bar> < 9007199254740992"
  shows "float_of_int i = Inr (Finite (of_int i))"
proof -
  have a: "nat \<bar>i\<bar> < 2 ^ 53" using assms by simp
  then have "floorlog 2 (nat \<bar>i\<bar>) \<le> 53"
    by (simp add: floorlog_le_iff)
  then have r: "round_to_double (nat \<bar>i\<bar>) = nat \<bar>i\<bar>"
    by (simp add: round_to_double_def)
  have "(2::nat) ^ 53 < 2 ^ 1024" by (rule power_strict_increasing) simp_all
  then have b: "\<not> 2 ^ 1024 \<le> nat \<bar>i\<bar>" using a by linarith
  have c: "sgn i * int (nat \<bar>i\<bar>) = i" by (simp add: mult_sgn_abs)
  show ?thesis
    unfolding float_of_int_def r Let_def using b c by simp
qed

lemma float_plus_int_small:
  "\<bar>i\<bar> < 9007199254740992 \<Longrightarrow> float_plus_int t i = Inr (t + real_of_int i)"
  by (simp add: float_plus_int_def float_of_int_small)

lemma float_plus_int_sum: "float_plus_int t i = Inr e \<Longrightarrow> e = t + real_of_int i"
  by (auto simp: float_plus_int_def split: sum.splits)

lemmas verifier_defs = extract_value_def convert_type_def evaluate_check_def execute_check_def
  execute_poll_def evaluate_overall_def get_latest_results_def build_result_def error_result_def
  time_sleep_def py_int_def py_float_def float_of_int_def ordered_def py_less_def py_cmp_def
  not_supported_def f_lt_def f_eq_def drop_sign_def float_plus_int_small

section \<open>The poll aggregator\<close>

lemma passed_count_all: "(length (filter Q xs) = length xs) = (\<forall>x\<in>set xs. Q x)"
proof -
  have "(length (filter Q xs) = length xs) = (length (filter (\<lambda>x. \<not> Q x) xs) = 0)"
    using sum_length_filter_compl[of Q xs] by arith
  then show ?thesis by (simp add: filter_empty_conv)
qed

text \<open>
  Claim C2. For every non-empty list of results of one poll, \<^verbatim>\<open>_evaluate_overall\<close>
  returns PASSED under ALL_PASS exactly when every result succeeded, under ANY_PASS
  exactly when some result succeeded, and under THRESHOLD with \<open>min_passed = k\<close>, where
  \<open>k\<close> is at least 1 and at most the number of results, exactly when at least \<open>k\<close>
  results succeeded; whenever it does not return PASSED it returns FAILED.
\<close>

theorem evaluate_overall_modes:
  assumes "poll_results \<noteq> []"
  shows "(mode (evaluation cfg) = ALL_PASS \<longrightarrow>
            (fst (evaluate_overall cfg poll_results) = PASSED) = (\<forall>r\<in>set poll_results. success r))
       \<and> (mode (evaluation cfg) = ANY_PASS \<longrightarrow>
            (fst (evaluate_overall cfg poll_results) = PASSED) = (\<exists>r\<in>set poll_results. success r))
       \<and> (mode (evaluation cfg) = THRESHOLD \<and> min_passed (evaluation cfg) = Some k
              \<and> 1 \<le> k \<and> k \<le> int (length poll_results) \<longrightarrow>
            (fst (evaluate_overall cfg poll_results) = PASSED)
              = (k \<le> int (length (filter success poll_results))))
       \<and> (fst (evaluate_overall cfg poll_results) \<noteq> PASSED \<longrightarrow>
            fst (evaluate_overall cfg poll_results) = FAILED)"
  by (auto simp: evaluate_overall_def Let_def passed_count_all filter_empty_conv)

theorem evaluate_overall_modes_witness:
  "[outcome ''error_count_check'' True, outcome ''latency_check'' False] \<noteq> []
   \<and> fst (evaluate_overall (test_config [error_count_check, latency_check] ALL_PASS None True 5)
         [outcome ''error_count_check'' True, outcome ''latency_check'' False]) = FAILED
   \<and> fst (evaluate_overall (test_config [error_count_check, latency_check] ANY_PASS None True 5)
         [outcome ''error_count_check'' True, outcome ''latency_check'' False]) = PASSED
   \<and> fst (evaluate_overall
         (test_config [error_count_check, latency_check] THRESHOLD (Some 1) True 5)
         [outcome ''error_count_check'' True, outcome ''latency_check'' False]) = PASSED
   \<and> fst (evaluate_overall
         (test_config [error_count_check, latency_check] THRESHOLD (Some 2) True 5)
         [outcome ''error_count_check'' True, outcome ''latency_check'' False]) = FAILED"
proof -
  let ?rs = "[outcome ''error_count_check'' True, outcome ''latency_check'' False]"
  have a: "?rs \<noteq> []" by simp
  show ?thesis
    using
      evaluate_overall_modes[OF a,
        of "test_config [error_count_check, latency_check] ALL_PASS None True 5" 1]
      evaluate_overall_modes[OF a,
        of "test_config [error_count_check, latency_check] ANY_PASS None True 5" 1]
      evaluate_overall_modes[OF a,
        of "test_config [error_count_check, latency_check] THRESHOLD (Some 1) True 5" 1]
      evaluate_overall_modes[OF a,
        of "test_config [error_count_check, latency_check] THRESHOLD (Some 2) True 5" 2]
    by (simp add: test_config_def outcome_def)
qed

text \<open>
  Claim C10. On the empty list of results, \<^verbatim>\<open>_evaluate_overall\<close> returns PASSED
  under ALL_PASS and FAILED under ANY_PASS and THRESHOLD, for every evaluation
  configuration that its validator accepts (under THRESHOLD, \<open>min_passed\<close> is then at
  least 1).
\<close>

theorem evaluate_overall_empty:
  assumes "validate_threshold_mode (evaluation cfg) = Inr (evaluation cfg)"
  shows "fst (evaluate_overall cfg []) = (if mode (evaluation cfg) = ALL_PASS then PASSED else FAILED)"
  using assms
  by (cases "mode (evaluation cfg)")
     (auto simp: evaluate_overall_def validate_threshold_mode_def split: option.splits if_splits)

theorem evaluate_overall_empty_witness:
  "validate_threshold_mode \<lparr>mode = THRESHOLD, min_passed = Some 1\<rparr>
     = Inr \<lparr>mode = THRESHOLD, min_passed = Some 1\<rparr>
   \<and> fst (evaluate_overall (test_config [error_count_check] THRESHOLD (Some 1) True 5) []) = FAILED
   \<and> fst (evaluate_overall (test_config [error_count_check] ALL_PASS None True 5) []) = PASSED"
  using evaluate_overall_empty[of "test_config [error_count_check] THRESHOLD (Some 1) True 5"]
    evaluate_overall_empty[of "test_config [error_count_check] ALL_PASS None True 5"]
  by (simp add: test_config_def validate_threshold_mode_def)

section \<open>Extraction\<close>

text \<open>
  Claim C6, as the code has it. When the path has no match, \<^verbatim>\<open>_extract_value\<close> fails
  with a \<^verbatim>\<open>ValueError\<close> whose message holds the path, twice, and the whole text of
  the document, which is not shortened; the poll then records for that check a failed
  result whose message holds the path. When the path has several matches, the first
  one is returned.
\<close>

theorem extract_value_matches:
  "(jsonpath_find P p data = Inr [] \<longrightarrow>
      extract_value P data p
        = Inl (Exn ValueError
            (''Failed to extract value using JSONPath '' @ quoted p @ '': JSONPath '' @ quoted p
               @ '' found no matches in response: '' @ py_str (float_repr P) data)))
   \<and> (jsonpath_find P p data = Inr (m # ms) \<longrightarrow> extract_value P data p = Inr m)
   \<and> (http_request P (query chk) w = (Inr data, w1)
        \<and> jsonpath_find P (path (extraction chk)) data = Inr [] \<longrightarrow>
        poll_checks P (chk # rest) n acc w
          = poll_checks P rest n
              (acc @ [\<lparr>check_name = name chk, success = False, result_value = PNone,
                       expected = PNone,
                       message = ''Error: Failed to extract value using JSONPath ''
                         @ quoted (path (extraction chk)) @ '': JSONPath ''
                         @ quoted (path (extraction chk)) @ '' found no matches in response: ''
                         @ py_str (float_repr P) data,
                       timestamp = fst (py_now P w1), poll_number = n\<rparr>])
              (snd (py_now P w1)))"
  by (auto simp: extract_value_def execute_check_def error_result_def split: prod.splits)

theorem extract_value_matches_witness:
  "sim_find ''$.data.missing'' (prometheus ''5'') = Inr []
   \<and> extract_value sim (prometheus ''5'') ''$.data.missing''
     = Inl (Exn ValueError
         (''Failed to extract value using JSONPath '' @ quoted ''$.data.missing''
            @ '': JSONPath '' @ quoted ''$.data.missing'' @ '' found no matches in response: ''
            @ py_str sim_float_repr (prometheus ''5'')))
   \<and> sim_find ''$.data.result[*].value[*]'' (prometheus ''5'') = Inr [PInt 1234567890, PStr ''5'']
   \<and> extract_value sim (prometheus ''5'') ''$.data.result[*].value[*]'' = Inr (PInt 1234567890)"
proof -
  have a: "jsonpath_find sim ''$.data.missing'' (prometheus ''5'') = Inr []"
    by (simp add: sim_defs)
  have b: "jsonpath_find sim ''$.data.result[*].value[*]'' (prometheus ''5'')
             = Inr (PInt 1234567890 # [PStr ''5''])"
    by (simp add: sim_defs)
  show ?thesis
    using a b extract_value_matches[of sim "''$.data.missing''" "prometheus ''5''"]
      extract_value_matches[of sim "''$.data.result[*].value[*]''" "prometheus ''5''"
        "PInt 1234567890" "[PStr ''5'']"]
    by (simp add: sim_def)
qed

text \<open>
  The document of this example has a text of 383 characters, and the message of the
  error ends with all of it.
\<close>

theorem extract_value_matches_counterexample:
  "extract_value sim (prometheus long_text) ''$.data.missing''
     = Inl (Exn ValueError
         (''Failed to extract value using JSONPath '' @ quoted ''$.data.missing''
            @ '': JSONPath '' @ quoted ''$.data.missing'' @ '' found no matches in response: ''
            @ py_str sim_float_repr (prometheus long_text)))
   \<and> length (py_str sim_float_repr (prometheus long_text)) = 383"
proof -
  have a: "jsonpath_find sim ''$.data.missing'' (prometheus long_text) = Inr []"
    by (simp add: sim_defs)
  have b: "length (py_str sim_float_repr (prometheus long_text)) = 383"
    by (simp add: prometheus_def long_text_def text_defs)
  show ?thesis
    using a b by (simp add: extract_value_def sim_def)
qed

section \<open>Coercion\<close>

lemma round_to_double_ge:
  assumes "2 ^ 1024 \<le> a"
  shows "2 ^ 1024 \<le> round_to_double a"
proof -
  define l where "l = floorlog 2 a"
  define sh where "sh = l - 53"
  have l: "1025 \<le> l"
    using floorlog_ge_SucI[of 2 1024 a] assms by (simp add: l_def)
  have "0 < a" using assms by (metis less_le_trans zero_less_numeral zero_less_power)
  then have lo: "2 ^ (l - 1) \<le> a"
    using floorlog_bounds[of a 2] by (simp add: l_def)
  have split: "(2::nat) ^ (l - 1) = 2 ^ 52 * 2 ^ sh"
  proof -
    have "l - 1 = 52 + sh" using l by (simp add: sh_def)
    then show ?thesis by (simp only: power_add)
  qed
  have pos: "(0::nat) < 2 ^ sh" by simp
  have lo': "(2::nat) ^ 52 * 2 ^ sh \<le> a" using lo unfolding split .
  then have "((2::nat) ^ 52 * 2 ^ sh) div 2 ^ sh \<le> a div 2 ^ sh" by (rule div_le_mono)
  then have q: "(2::nat) ^ 52 \<le> a div 2 ^ sh"
    unfolding div_mult_self_is_m[OF pos] .
  have "(2::nat) ^ 1024 \<le> 2 ^ (l - 1)"
    using l by (intro power_increasing) auto
  also have "\<dots> = (2::nat) ^ 52 * 2 ^ sh" by (rule split)
  also have "\<dots> \<le> (a div 2 ^ sh) * 2 ^ sh"
    using q by (rule mult_le_mono1)
  also have "\<dots> \<le> round_to_double a"
    using l by (auto simp: round_to_double_def Let_def l_def[symmetric] sh_def[symmetric])
  finally show ?thesis .
qed

text \<open>
  Claim C7 at the integer \<open>10 ^ 400\<close>, which a JSON response can hold. The target type is
  \<^verbatim>\<open>number\<close> and the default \<^verbatim>\<open>0.0\<close> is configured: \<^verbatim>\<open>float\<close> raises
  \<^verbatim>\<open>OverflowError\<close>, which the handler of \<^verbatim>\<open>_convert_type\<close> (for
  \<^verbatim>\<open>ValueError\<close> and \<^verbatim>\<open>TypeError\<close>) lets through, so the default is not returned.
\<close>

theorem convert_type_overflow:
  "convert_type P (PInt (10 ^ 400)) ''number'' (PFloat (Finite 0))
     = Inl (Exn OverflowError ''int too large to convert to float'')"
proof -
  have "(2::nat) ^ 1024 \<le> nat \<bar>10 ^ 400\<bar>" by simp
  then have "2 ^ 1024 \<le> round_to_double (nat \<bar>10 ^ 400\<bar>)" by (rule round_to_double_ge)
  then show ?thesis
    by (simp add: convert_type_def py_float_def float_of_int_def Let_def)
qed

text \<open>
  What does hold of the default: a failure of class \<^verbatim>\<open>ValueError\<close> or
  \<^verbatim>\<open>TypeError\<close> gives the default when there is one, and \<^verbatim>\<open>_convert_type\<close>
  fails when there is none.
\<close>

lemma convert_type_default:
  assumes "py_float (parse_float P) v = Inl x"
    and "exn_cls x = ValueError \<or> exn_cls x = TypeError"
  shows "convert_type P v ''number'' d
           = (if d \<noteq> PNone then Inr d
              else Inl (Exn ValueError
                (''Cannot convert '' @ quoted (py_str (float_repr P) v)
                   @ '' to number and no default provided'')))"
  using assms by (simp add: convert_type_def)

lemma convert_type_no_default:
  assumes "py_float (parse_float P) v = Inl x"
  shows "\<exists>y. convert_type P v ''number'' PNone = Inl y"
  using assms by (simp add: convert_type_def)

lemma of_char_lower:
  "(of_char (lower_char c) :: nat) =
     (if (65 \<le> (of_char c :: nat) \<and> (of_char c :: nat) \<le> 90)
         \<or> (192 \<le> (of_char c :: nat) \<and> (of_char c :: nat) \<le> 222 \<and> (of_char c :: nat) \<noteq> 215)
      then of_char c + 32 else of_char c)"
  by (simp add: lower_char_def Let_def)

lemma lower_char_letter:
  assumes "(of_char a :: nat) = n" "97 \<le> n" "n \<le> 122"
  shows "(lower_char c = a) = ((of_char c :: nat) = n \<or> (of_char c :: nat) = n - 32)"
proof -
  have "(lower_char c = a) = ((of_char (lower_char c) :: nat) = n)"
    using assms(1) by (metis of_char_eq_iff)
  then show ?thesis using assms(2,3) by (auto simp: of_char_lower)
qed

lemma lower_char_cases:
  "(lower_char c = CHR ''f'') = (c = CHR ''f'' \<or> c = CHR ''F'')"
  "(lower_char c = CHR ''a'') = (c = CHR ''a'' \<or> c = CHR ''A'')"
  "(lower_char c = CHR ''l'') = (c = CHR ''l'' \<or> c = CHR ''L'')"
  "(lower_char c = CHR ''s'') = (c = CHR ''s'' \<or> c = CHR ''S'')"
  "(lower_char c = CHR ''e'') = (c = CHR ''e'' \<or> c = CHR ''E'')"
proof -
  have "(lower_char c = CHR ''f'') = ((of_char c :: nat) = 102 \<or> (of_char c :: nat) = 102 - 32)"
    by (rule lower_char_letter) simp_all
  also have "\<dots> = ((of_char c :: nat) = of_char (CHR ''f'') \<or> (of_char c :: nat) = of_char (CHR ''F''))"
    by simp
  finally show "(lower_char c = CHR ''f'') = (c = CHR ''f'' \<or> c = CHR ''F'')"
    by (simp only: of_char_eq_iff)
  have "(lower_char c = CHR ''a'') = ((of_char c :: nat) = 97 \<or> (of_char c :: nat) = 97 - 32)"
    by (rule lower_char_letter) simp_all
  also have "\<dots> = ((of_char c :: nat) = of_char (CHR ''a'') \<or> (of_char c :: nat) = of_char (CHR ''A''))"
    by simp
  finally show "(lower_char c = CHR ''a'') = (c = CHR ''a'' \<or> c = CHR ''A'')"
    by (simp only: of_char_eq_iff)
  have "(lower_char c = CHR ''l'') = ((of_char c :: nat) = 108 \<or> (of_char c :: nat) = 108 - 32)"
    by (rule lower_char_letter) simp_all
  also have "\<dots> = ((of_char c :: nat) = of_char (CHR ''l'') \<or> (of_char c :: nat) = of_char (CHR ''L''))"
    by simp
  finally show "(lower_char c = CHR ''l'') = (c = CHR ''l'' \<or> c = CHR ''L'')"
    by (simp only: of_char_eq_iff)
  have "(lower_char c = CHR ''s'') = ((of_char c :: nat) = 115 \<or> (of_char c :: nat) = 115 - 32)"
    by (rule lower_char_letter) simp_all
  also have "\<dots> = ((of_char c :: nat) = of_char (CHR ''s'') \<or> (of_char c :: nat) = of_char (CHR ''S''))"
    by simp
  finally show "(lower_char c = CHR ''s'') = (c = CHR ''s'' \<or> c = CHR ''S'')"
    by (simp only: of_char_eq_iff)
  have "(lower_char c = CHR ''e'') = ((of_char c :: nat) = 101 \<or> (of_char c :: nat) = 101 - 32)"
    by (rule lower_char_letter) simp_all
  also have "\<dots> = ((of_char c :: nat) = of_char (CHR ''e'') \<or> (of_char c :: nat) = of_char (CHR ''E''))"
    by simp
  finally show "(lower_char c = CHR ''e'') = (c = CHR ''e'' \<or> c = CHR ''E'')"
    by (simp only: of_char_eq_iff)
qed

lemma lower_char_zero: "(lower_char c = CHR ''0'') = (c = CHR ''0'')"
proof -
  have "(lower_char c = CHR ''0'') = ((of_char (lower_char c) :: nat) = of_char (CHR ''0''))"
    by (simp only: of_char_eq_iff)
  also have "\<dots> = ((of_char c :: nat) = of_char (CHR ''0''))"
    by (auto simp: of_char_lower)
  finally show ?thesis by (simp only: of_char_eq_iff)
qed

lemma lower_false: "(lower s = ''false'') = is_false_word s"
  by (auto simp: lower_def is_false_word_def lower_char_cases split: list.splits)

lemma lower_zero: "(lower s = ''0'') = (s = ''0'')"
  by (auto simp: lower_def lower_char_zero)

lemma lower_empty: "(lower s = []) = (s = [])"
  by (simp add: lower_def)

text \<open>
  Claim C8, as the code has it. Coercion to \<^verbatim>\<open>boolean\<close> returns a boolean
  unchanged; maps a string to false exactly when the string, put in lower case, is
  \<^verbatim>\<open>false\<close>, \<^verbatim>\<open>0\<close> or empty, that is when it is \<^verbatim>\<open>false\<close> in any mix of
  cases, \<^verbatim>\<open>0\<close> or empty, and to true otherwise; and maps a value of another type to
  its truth value.
\<close>

theorem convert_type_boolean:
  "convert_type P (PBool b) ''boolean'' d = Inr (PBool b)
   \<and> convert_type P (PStr s) ''boolean'' d
        = Inr (PBool (\<not> (is_false_word s \<or> s = ''0'' \<or> s = [])))
   \<and> convert_type P PNone ''boolean'' d = Inr (PBool False)
   \<and> convert_type P (PInt i) ''boolean'' d = Inr (PBool (i \<noteq> 0))
   \<and> convert_type P (PFloat f) ''boolean'' d = Inr (PBool (f \<noteq> Finite 0 \<and> f \<noteq> NegZero))
   \<and> convert_type P (PList xs) ''boolean'' d = Inr (PBool (xs \<noteq> []))
   \<and> convert_type P (PDict kvs) ''boolean'' d = Inr (PBool (kvs \<noteq> []))"
  by (simp add: convert_type_def lower_false lower_zero lower_empty)

theorem convert_type_boolean_witness:
  "convert_type sim (PStr ''FALSE'') ''boolean'' PNone = Inr (PBool False)
   \<and> convert_type sim (PStr ''no'') ''boolean'' PNone = Inr (PBool True)
   \<and> convert_type sim (PInt 0) ''boolean'' PNone = Inr (PBool False)"
  using convert_type_boolean[of sim True PNone "''FALSE''" 0]
    convert_type_boolean[of sim True PNone "''no''" 0]
  by (simp add: is_false_word_def)

text \<open>The string \<^verbatim>\<open>False\<close> is none of the three literal forms, and is mapped to false.\<close>

theorem convert_type_boolean_counterexample:
  "convert_type sim (PStr ''False'') ''boolean'' PNone = Inr (PBool False)
   \<and> ''False'' \<noteq> ''false'' \<and> ''False'' \<noteq> ''0'' \<and> ''False'' \<noteq> []"
  by (simp add: convert_type_def lower_false lower_zero lower_empty is_false_word_def)

section \<open>Threshold evaluation\<close>

lemma verdict_less: "verdict P ''<'' v e = py_less v e"
  and verdict_greater: "verdict P ''>'' v e = py_greater v e"
  and verdict_less_eq: "verdict P ''<='' v e = py_less_eq v e"
  and verdict_greater_eq: "verdict P ''>='' v e = py_greater_eq v e"
  and verdict_eq: "verdict P ''=='' v e = Some (py_eq v e)"
  and verdict_not_eq: "verdict P ''!='' v e = Some (\<not> py_eq v e)"
  by (simp_all add: verdict_def evaluate_check_def ordered_def Let_def split: option.splits)

lemmas verdict_ops = verdict_less verdict_greater verdict_less_eq verdict_greater_eq verdict_eq
  verdict_not_eq

lemmas cmp_defs = py_less_def py_greater_def py_less_eq_def py_greater_eq_def py_eq_def py_cmp_def
  f_le_def f_lt_def f_eq_def drop_sign_def holds_def

lemma six:
  assumes "op \<in> set [''<'', ''>'', ''<='', ''>='', ''=='', ''!='']"
  obtains "op = ''<''" | "op = ''>''" | "op = ''<=''" | "op = ''>=''" | "op = ''==''" | "op = ''!=''"
  using assms by auto

lemma evaluate_check_shape:
  assumes "op \<in> set [''<'', ''>'', ''<='', ''>='', ''=='', ''!='']"
  shows "evaluate_check P \<lparr>operator = op, evaluator_value = e\<rparr> v =
           (case verdict P op v e of
              Some ok \<Rightarrow>
                Inr (ok, ''value '' @ py_str (float_repr P) v @ (if ok then '' '' else '' not '')
                           @ op @ '' '' @ py_str (float_repr P) (tv_val e))
            | None \<Rightarrow> Inl (not_supported op v e))"
  using assms
  by (auto simp: verdict_def evaluate_check_def ordered_def Let_def split: option.splits)

lemma verdict_none:
  assumes "op \<in> set [''<'', ''>'', ''<='', ''>='', ''=='', ''!='']"
  shows "(verdict P op v e = None)
           = (op \<in> set [''<'', ''>'', ''<='', ''>='']
              \<and> \<not> (is_number v \<and> is_number (tv_val e))
              \<and> \<not> (is_string v \<and> is_string (tv_val e)))"
  using assms
  by (elim six; cases v; cases e) (simp_all add: verdict_ops cmp_defs)

lemma verdict_strings:
  assumes "op \<in> set [''<'', ''>'', ''<='', ''>='', ''=='', ''!='']"
  shows "verdict P op (PStr s) (TStr t) = Some (holds op s t)"
  using assms by (elim six) (auto simp: verdict_ops cmp_defs)

lemma verdict_rational:
  assumes "op \<in> set [''<'', ''>'', ''<='', ''>='', ''=='', ''!='']"
    and "rational v = Some x" and "rational (tv_val e) = Some y"
  shows "verdict P op v e = Some (holds op x y)"
proof -
  obtain a where a: "num_of v = Some a" "drop_sign a = Finite x"
    using assms(2) by (cases v rule: rational.cases) (auto simp: drop_sign_def)
  obtain b where b: "num_of (tv_val e) = Some b" "drop_sign b = Finite y"
    using assms(3) by (cases "tv_val e" rule: rational.cases) (auto simp: drop_sign_def)
  have nan: "a \<noteq> NaN" "b \<noteq> NaN" using a b by (auto simp: drop_sign_def)
  show ?thesis
    using assms(1) a b nan
    by (elim six)
       (auto simp: verdict_ops py_less_def py_greater_def py_less_eq_def py_greater_eq_def
          py_eq_def py_cmp_def f_le_def f_lt_def f_eq_def holds_def)
qed

lemma lt_unsigned_nan [simp]: "lt_unsigned a NaN = False"
  by (cases a) simp_all

lemma verdict_nan:
  assumes "op \<in> set [''<'', ''>'', ''<='', ''>='', ''=='', ''!='']"
    and "is_number v" and "is_number (tv_val e)" and "v = PFloat NaN \<or> e = TFloat NaN"
  shows "verdict P op v e = Some (op = ''!='')"
  using assms
  by (elim six; cases v; cases e) (auto simp: verdict_ops cmp_defs split: pyfloat.splits)

lemma verdict_infinite:
  assumes "op \<in> set [''<'', ''>'', ''<='', ''>='', ''=='', ''!='']"
  shows "rational v = Some x \<Longrightarrow> verdict P op v (TFloat PosInf) = Some (holds op (0::int) 1)"
    "rational v = Some x \<Longrightarrow> verdict P op v (TFloat NegInf) = Some (holds op (1::int) 0)"
    "rational (tv_val e) = Some y \<Longrightarrow> verdict P op (PFloat PosInf) e = Some (holds op (1::int) 0)"
    "rational (tv_val e) = Some y \<Longrightarrow> verdict P op (PFloat NegInf) e = Some (holds op (0::int) 1)"
    "verdict P op (PFloat PosInf) (TFloat PosInf) = Some (holds op (0::int) 0)"
    "verdict P op (PFloat NegInf) (TFloat NegInf) = Some (holds op (0::int) 0)"
    "verdict P op (PFloat PosInf) (TFloat NegInf) = Some (holds op (1::int) 0)"
    "verdict P op (PFloat NegInf) (TFloat PosInf) = Some (holds op (0::int) 1)"
proof -
  have v: "\<exists>a c. num_of v = Some a \<and> drop_sign a = Finite c" if "rational v = Some x" for v x
    using that by (cases v rule: rational.cases) (auto simp: drop_sign_def)
  show "rational v = Some x \<Longrightarrow> verdict P op v (TFloat PosInf) = Some (holds op (0::int) 1)"
    using assms v[of v x] by (elim six) (auto simp: verdict_ops cmp_defs)
  show "rational v = Some x \<Longrightarrow> verdict P op v (TFloat NegInf) = Some (holds op (1::int) 0)"
    using assms v[of v x] by (elim six) (auto simp: verdict_ops cmp_defs)
  show "rational (tv_val e) = Some y \<Longrightarrow> verdict P op (PFloat PosInf) e = Some (holds op (1::int) 0)"
    using assms v[of "tv_val e" y] by (elim six) (auto simp: verdict_ops cmp_defs)
  show "rational (tv_val e) = Some y \<Longrightarrow> verdict P op (PFloat NegInf) e = Some (holds op (0::int) 1)"
    using assms v[of "tv_val e" y] by (elim six) (auto simp: verdict_ops cmp_defs)
  show "verdict P op (PFloat PosInf) (TFloat PosInf) = Some (holds op (0::int) 0)"
    "verdict P op (PFloat NegInf) (TFloat NegInf) = Some (holds op (0::int) 0)"
    "verdict P op (PFloat PosInf) (TFloat NegInf) = Some (holds op (1::int) 0)"
    "verdict P op (PFloat NegInf) (TFloat PosInf) = Some (holds op (0::int) 1)"
    using assms by (elim six; simp add: verdict_ops cmp_defs)+
qed

lemma verdict_unlike:
  assumes "\<not> (is_number v \<and> is_number (tv_val e))" and "\<not> (is_string v \<and> is_string (tv_val e))"
  shows "verdict P ''=='' v e = Some False" "verdict P ''!='' v e = Some True"
  using assms by (cases v; cases e; simp add: verdict_ops cmp_defs)+

text \<open>
  Claim C9, as the code has it. For each of the six operators, \<^verbatim>\<open>_evaluate_check\<close>
  returns the outcome of Python's comparison with the message
  \<^verbatim>\<open>value {v} {op} {expected}\<close> when it holds and \<^verbatim>\<open>value {v} not {op} {expected}\<close>
  when it does not, whenever Python has that comparison for the two operands: always
  for \<^verbatim>\<open>==\<close> and \<^verbatim>\<open>!=\<close>, and for the four orderings when the operands are two
  numbers or two strings. On other operands an ordering raises \<^verbatim>\<open>TypeError\<close>.
  The outcome is, under every operator: for two strings, the operator's relation in
  the lexicographic order of their characters; for two finite numbers, booleans
  counting as 1 and 0, the operator's relation between their values as rationals; with
  a \<^verbatim>\<open>nan\<close> on either side, false except under \<^verbatim>\<open>!=\<close>; an infinity stands above or
  below every finite number and is equal to itself; and operands that are neither two
  numbers nor two strings are unequal.
\<close>

theorem evaluate_check_result:
  assumes "op \<in> set [''<'', ''>'', ''<='', ''>='', ''=='', ''!='']"
  shows "evaluate_check P \<lparr>operator = op, evaluator_value = e\<rparr> v =
           (case verdict P op v e of
              Some ok \<Rightarrow>
                Inr (ok, ''value '' @ py_str (float_repr P) v @ (if ok then '' '' else '' not '')
                           @ op @ '' '' @ py_str (float_repr P) (tv_val e))
            | None \<Rightarrow> Inl (not_supported op v e))
       \<and> (verdict P op v e = None)
            = (op \<in> set [''<'', ''>'', ''<='', ''>='']
               \<and> \<not> (is_number v \<and> is_number (tv_val e))
               \<and> \<not> (is_string v \<and> is_string (tv_val e)))
       \<and> verdict P op (PStr s) (TStr t) = Some (holds op s t)
       \<and> (rational v = Some x \<and> rational (tv_val e) = Some y \<longrightarrow>
            verdict P op v e = Some (holds op x y))
       \<and> (is_number v \<and> is_number (tv_val e) \<and> (v = PFloat NaN \<or> e = TFloat NaN) \<longrightarrow>
            verdict P op v e = Some (op = ''!=''))
       \<and> (rational v = Some x \<longrightarrow>
            verdict P op v (TFloat PosInf) = Some (holds op (0::int) 1)
            \<and> verdict P op v (TFloat NegInf) = Some (holds op (1::int) 0))
       \<and> (rational (tv_val e) = Some y \<longrightarrow>
            verdict P op (PFloat PosInf) e = Some (holds op (1::int) 0)
            \<and> verdict P op (PFloat NegInf) e = Some (holds op (0::int) 1))
       \<and> verdict P op (PFloat PosInf) (TFloat PosInf) = Some (holds op (0::int) 0)
       \<and> verdict P op (PFloat NegInf) (TFloat NegInf) = Some (holds op (0::int) 0)
       \<and> verdict P op (PFloat PosInf) (TFloat NegInf) = Some (holds op (1::int) 0)
       \<and> verdict P op (PFloat NegInf) (TFloat PosInf) = Some (holds op (0::int) 1)
       \<and> (\<not> (is_number v \<and> is_number (tv_val e)) \<and> \<not> (is_string v \<and> is_string (tv_val e)) \<longrightarrow>
            verdict P ''=='' v e = Some False \<and> verdict P ''!='' v e = Some True)
       \<and> holds ''<'' a b = (a < b) \<and> holds ''>'' a b = (b < a)
       \<and> holds ''<='' a b = (a \<le> b) \<and> holds ''>='' a b = (b \<le> a)
       \<and> holds ''=='' a b = (a = b) \<and> holds ''!='' a b = (a \<noteq> b)
       \<and> rational (PBool True) = Some 1 \<and> rational (PBool False) = Some 0
       \<and> rational (PInt i) = Some (of_int i) \<and> rational (PFloat (Finite x)) = Some x
       \<and> rational (PFloat NegZero) = Some 0"
proof -
  note op = assms
  have pins: "holds ''<'' a b = (a < b) \<and> holds ''>'' a b = (b < a)
       \<and> holds ''<='' a b = (a \<le> b) \<and> holds ''>='' a b = (b \<le> a)
       \<and> holds ''=='' a b = (a = b) \<and> holds ''!='' a b = (a \<noteq> b)
       \<and> rational (PBool True) = Some 1 \<and> rational (PBool False) = Some 0
       \<and> rational (PInt i) = Some (of_int i) \<and> rational (PFloat (Finite x)) = Some x
       \<and> rational (PFloat NegZero) = Some 0"
    by (simp add: holds_def)
  show ?thesis
    using evaluate_check_shape[OF op, where P = P and e = e and v = v]
      verdict_none[OF op, where P = P and e = e and v = v]
      verdict_strings[OF op, where P = P and s = s and t = t]
      verdict_rational[OF op, where P = P and e = e and v = v and x = x and y = y]
      verdict_nan[OF op, where P = P and e = e and v = v]
      verdict_infinite(1,2)[OF op, where P = P and v = v and x = x]
      verdict_infinite(3,4)[OF op, where P = P and e = e and y = y]
      verdict_infinite(5-8)[OF op, where P = P]
      verdict_unlike[where P = P and e = e and v = v] pins
    by (simp only: simp_thms) blast
qed

theorem evaluate_check_result_witness:
  "evaluate_check sim \<lparr>operator = ''<'', evaluator_value = TInt 10\<rparr> (PFloat (Finite 5))
     = Inr (True, ''value 5.0 < 10'')
   \<and> evaluate_check sim \<lparr>operator = ''<'', evaluator_value = TInt 10\<rparr> (PFloat (Finite 50))
     = Inr (False, ''value 50.0 not < 10'')
   \<and> evaluate_check sim \<lparr>operator = ''>='', evaluator_value = TInt 0\<rparr> (PFloat NegZero)
     = Inr (True, ''value -0.0 >= 0'')
   \<and> evaluate_check sim \<lparr>operator = ''=='', evaluator_value = TInt 1\<rparr> (PBool True)
     = Inr (True, ''value True == 1'')
   \<and> evaluate_check sim \<lparr>operator = ''<'', evaluator_value = TFloat (Finite 1)\<rparr> (PFloat NaN)
     = Inr (False, ''value nan not < 1.0'')"
proof -
  have lt: "''<'' \<in> set [''<'', ''>'', ''<='', ''>='', ''=='', ''!='']"
    and ge: "''>='' \<in> set [''<'', ''>'', ''<='', ''>='', ''=='', ''!='']"
    and eq: "''=='' \<in> set [''<'', ''>'', ''<='', ''>='', ''=='', ''!='']"
    by simp_all
  show ?thesis
    using evaluate_check_result[OF lt, where P = sim and e = "TInt 10" and v = "PFloat (Finite 5)"
        and x = 5 and y = 10]
      evaluate_check_result[OF lt, where P = sim and e = "TInt 10" and v = "PFloat (Finite 50)"
        and x = 50 and y = 10]
      evaluate_check_result[OF ge, where P = sim and e = "TInt 0" and v = "PFloat NegZero"
        and x = 0 and y = 0]
      evaluate_check_result[OF eq, where P = sim and e = "TInt 1" and v = "PBool True"
        and x = 1 and y = 1]
      evaluate_check_result[OF lt, where P = sim and e = "TFloat (Finite 1)" and v = "PFloat NaN"]
    by (simp add: sim_def sim_float_repr_def text_defs holds_def)
qed

text \<open>A string against the threshold 10 under \<^verbatim>\<open><\<close>: no pair is returned.\<close>

theorem evaluate_check_result_counterexample:
  "evaluate_check sim \<lparr>operator = ''<'', evaluator_value = TInt 10\<rparr> (PStr ''abc'')
     = Inl (Exn TypeError
         (quoted ''<'' @ '' not supported between instances of '' @ quoted ''str'' @ '' and ''
            @ quoted ''int''))"
  by (simp add: evaluate_check_def ordered_def py_less_def py_cmp_def not_supported_def quoted_def)

section \<open>One poll\<close>

lemma execute_check_tags:
  assumes "execute_check P chk n w = (Inr r, w1)"
  shows "check_name r = name chk \<and> poll_number r = n"
  using assms
  by (auto simp: execute_check_def split: prod.splits sum.splits)

lemma poll_checks_acc:
  "poll_checks P chks n acc w
     = (acc @ fst (poll_checks P chks n [] w), snd (poll_checks P chks n [] w))"
proof (induction chks arbitrary: acc w)
  case Nil
  show ?case by simp
next
  case (Cons chk rest)
  show ?case
    by (simp add: Cons.IH[of "acc @ _"] Cons.IH[of "[_]"] split: prod.splits sum.splits)
qed

lemma poll_checks_tags:
  "map check_name (fst (poll_checks P chks n [] w)) = map name chks
   \<and> (\<forall>r\<in>set (fst (poll_checks P chks n [] w)). poll_number r = n)"
proof (induction chks arbitrary: w)
  case Nil
  show ?case by simp
next
  case (Cons chk rest)
  show ?case
    using Cons.IH
    by (auto simp: poll_checks_acc[of _ _ _ "[_]"] error_result_def
          dest: execute_check_tags split: prod.splits sum.splits)
qed

lemma execute_poll_tags:
  assumes "execute_poll P cfg n w = (rs, w')"
  shows "map check_name rs = map name (checks cfg)" "\<forall>r\<in>set rs. poll_number r = n"
    "length rs = length (checks cfg)"
proof -
  have rs: "rs = fst (poll_checks P (checks cfg) n [] w)"
    using assms by (simp add: execute_poll_def)
  show "map check_name rs = map name (checks cfg)" "\<forall>r\<in>set rs. poll_number r = n"
    using poll_checks_tags[of P "checks cfg" n w] by (simp_all add: rs)
  then show "length rs = length (checks cfg)"
    by (metis length_map)
qed

text \<open>
  Claim C3. A poll returns one result for each configured check, in their order, and
  returns it whatever happens: when a stage of a check (the request, the extraction,
  the coercion or the evaluation) raises an exception, the check is recorded as a
  result with \<open>success = False\<close>, no value and the message \<^verbatim>\<open>Error: \<close> followed by
  the text of the exception, and the poll goes on with the next check.
\<close>

theorem execute_poll_catches:
  "map check_name (fst (execute_poll P cfg n w)) = map name (checks cfg)
   \<and> (execute_check P chk n w = (Inl x, w1) \<longrightarrow>
        poll_checks P (chk # rest) n acc w
          = poll_checks P rest n
              (acc @ [\<lparr>check_name = name chk, success = False, result_value = PNone,
                       expected = PNone, message = ''Error: '' @ exn_str x,
                       timestamp = fst (py_now P w1), poll_number = n\<rparr>])
              (snd (py_now P w1)))
   \<and> (http_request P (query chk) w = (Inl x, w1) \<longrightarrow> execute_check P chk n w = (Inl x, w1))
   \<and> (http_request P (query chk) w = (Inr data, w1)
        \<and> extract_value P data (path (extraction chk)) = Inl x \<longrightarrow>
        execute_check P chk n w = (Inl x, w1))
   \<and> (http_request P (query chk) w = (Inr data, w1)
        \<and> extract_value P data (path (extraction chk)) = Inr raw
        \<and> convert_type P raw (target_type (extraction chk)) (default_value (extraction chk)) = Inl x \<longrightarrow>
        execute_check P chk n w = (Inl x, w1))
   \<and> (http_request P (query chk) w = (Inr data, w1)
        \<and> extract_value P data (path (extraction chk)) = Inr raw
        \<and> convert_type P raw (target_type (extraction chk)) (default_value (extraction chk)) = Inr v
        \<and> evaluate_check P (evaluate chk) v = Inl x \<longrightarrow>
        execute_check P chk n w = (Inl x, w1))"
  by (auto simp: execute_poll_def poll_checks_tags execute_check_def error_result_def
        split: prod.splits)

theorem execute_poll_catches_witness:
  "execute_poll sim (test_config [error_count_check] ALL_PASS None True 5) 1 (sim_start [])
     = ([\<lparr>check_name = ''error_count_check'', success = False, result_value = PNone,
          expected = PNone, message = ''Error: no response'', timestamp = 1,
          poll_number = 1\<rparr>],
        \<lparr>sim_clock = 1, sim_queue = []\<rparr>)
   \<and> execute_poll sim (test_config [error_count_check] ALL_PASS None True 5) 1
         (sim_start [Inr (prometheus ''abc'')])
     = ([\<lparr>check_name = ''error_count_check'', success = False, result_value = PNone,
          expected = PNone,
          message = ''Error: Cannot convert '' @ quoted ''abc''
            @ '' to number and no default provided'',
          timestamp = 1, poll_number = 1\<rparr>],
        \<lparr>sim_clock = 1, sim_queue = []\<rparr>)"
proof -
  let ?cfg = "test_config [error_count_check] ALL_PASS None True 5"
  let ?w1 = "\<lparr>sim_clock = 1, sim_queue = []\<rparr>"
  let ?x = "Exn HTTPError ''no response''"
  let ?y = "Exn ValueError (''Cannot convert '' @ quoted ''abc''
              @ '' to number and no default provided'')"
  have a: "http_request sim (query error_count_check) (sim_start []) = (Inl ?x, ?w1)"
    by (simp add: sim_defs)
  note c = execute_poll_catches[of sim ?cfg 1 "sim_start []" error_count_check ?x ?w1 "[]" "[]"]
  from a c have b: "execute_check sim error_count_check 1 (sim_start []) = (Inl ?x, ?w1)"
    by blast
  from b c have first: "poll_checks sim [error_count_check] 1 [] (sim_start [])
      = poll_checks sim [] 1
          ([] @ [\<lparr>check_name = name error_count_check, success = False, result_value = PNone,
                  expected = PNone, message = ''Error: '' @ exn_str ?x,
                  timestamp = fst (py_now sim ?w1), poll_number = 1\<rparr>])
          (snd (py_now sim ?w1))"
    by blast
  have d: "http_request sim (query error_count_check) (sim_start [Inr (prometheus ''abc'')])
             = (Inr (prometheus ''abc''), ?w1)"
    by (simp add: sim_defs)
  have e: "extract_value sim (prometheus ''abc'') (path (extraction error_count_check))
             = Inr (PStr ''abc'')"
    by (simp add: sim_defs extract_value_def)
  have f: "convert_type sim (PStr ''abc'') (target_type (extraction error_count_check))
             (default_value (extraction error_count_check)) = Inl ?y"
    by (simp add: sim_defs convert_type_def py_float_def py_str_def)
  note c' = execute_poll_catches[of sim ?cfg 1 "sim_start [Inr (prometheus ''abc'')]"
      error_count_check ?y ?w1 "[]" "[]" "prometheus ''abc''" "PStr ''abc''"]
  from d e f c'
  have g: "execute_check sim error_count_check 1 (sim_start [Inr (prometheus ''abc'')]) = (Inl ?y, ?w1)"
    by blast
  from g c' have second: "poll_checks sim [error_count_check] 1 [] (sim_start [Inr (prometheus ''abc'')])
      = poll_checks sim [] 1
          ([] @ [\<lparr>check_name = name error_count_check, success = False, result_value = PNone,
                  expected = PNone, message = ''Error: '' @ exn_str ?y,
                  timestamp = fst (py_now sim ?w1), poll_number = 1\<rparr>])
          (snd (py_now sim ?w1))"
    by blast
  from first second show ?thesis
    by (simp add: execute_poll_def test_config_def error_count_check_def sim_def)
qed

section \<open>The loop of \<^verbatim>\<open>run\<close>\<close>

lemma loop_inv_start: "loop_inv cfg [] 0"
  by (simp add: loop_inv_def get_latest_results_def)

lemma loop_inv_step:
  assumes "loop_inv cfg rs n" and "execute_poll P cfg (Suc n) w = (new, w')"
  shows "loop_inv cfg (rs @ new) (Suc n)"
proof -
  note tags = execute_poll_tags[OF assms(2)]
  have old: "\<forall>r\<in>set rs. poll_number r \<noteq> Suc n"
  proof
    fix r assume r: "r \<in> set rs"
    have "map check_name (get_latest_results rs (Suc n)) = []"
      using assms(1) by (simp add: loop_inv_def)
    then have "filter (\<lambda>r. poll_number r = Suc n) rs = []"
      by (simp add: get_latest_results_def)
    then show "poll_number r \<noteq> Suc n" using r by (simp add: filter_empty_conv)
  qed
  have new_all: "filter (\<lambda>r. poll_number r = Suc n) new = new"
    using tags(2) by (simp add: filter_id_conv)
  have new_none: "p \<noteq> Suc n \<Longrightarrow> filter (\<lambda>r. poll_number r = p) new = []" for p
    using tags(2) by (auto simp: filter_empty_conv)
  have old_none: "filter (\<lambda>r. poll_number r = Suc n) rs = []"
    using old by (simp add: filter_empty_conv)
  have a: "map check_name (get_latest_results (rs @ new) p)
             = (if 1 \<le> p \<and> p \<le> Suc n then map name (checks cfg) else [])" for p
  proof (cases "p = Suc n")
    case True
    then show ?thesis by (simp add: get_latest_results_def new_all old_none tags(1))
  next
    case False
    have "map check_name (get_latest_results rs p)
            = (if 1 \<le> p \<and> p \<le> n then map name (checks cfg) else [])"
      using assms(1) by (simp add: loop_inv_def)
    then show ?thesis using False by (auto simp: get_latest_results_def new_none)
  qed
  have "map poll_number new = replicate (length (checks cfg)) (Suc n)"
    using tags(2,3) by (simp add: map_replicate_const[symmetric] flip: tags(3))
  then have b: "map poll_number (rs @ new)
                  = concat (map (replicate (length (checks cfg))) [1..<Suc (Suc n)])"
    using assms(1) by (simp add: loop_inv_def)
  have c: "length (rs @ new) = Suc n * length (checks cfg)"
    using assms(1) tags(3) by (simp add: loop_inv_def)
  from a b c show ?thesis by (simp add: loop_inv_def)
qed

lemma poll_loop_exit_inv:
  assumes "poll_loop P cfg s e n rs w = Some y"
  shows "loop_inv cfg rs n \<longrightarrow> (\<forall>ex w'. y = (Inr ex, w') \<longrightarrow> exit_inv cfg ex)"
proof -
  have "(case ((((((P, cfg), s), e), n), rs), w) of
          ((((((P, cfg), s), e), n), rs), w) \<Rightarrow>
            \<lambda>y. loop_inv cfg rs n \<longrightarrow> (\<forall>ex w'. y = (Inr ex, w') \<longrightarrow> exit_inv cfg ex)) y"
  proof (rule poll_loop.raw_induct[OF _ assms], goal_cases)
    case (1 loop P cfg s e n rs w y)
    have IH: "loop P cfg s e n' rs' w' = Some y' \<Longrightarrow> loop_inv cfg rs' n'
                \<Longrightarrow> y' = (Inr ex, w'') \<Longrightarrow> exit_inv cfg ex" for n' rs' w' y' ex w''
      using "1"(1)[of P cfg s e n' rs' w' y'] by simp
    have "exit_inv cfg ex" if inv: "loop_inv cfg rs n" and y: "y = (Inr ex, w')" for ex w'
    proof -
      obtain t0 w0 where t0: "py_time P w = (t0, w0)" by (cases "py_time P w")
      obtain t1 w1 where t1: "py_time P w0 = (t1, w1)" by (cases "py_time P w0")
      obtain new w2 where poll: "execute_poll P cfg (Suc n) w1 = (new, w2)"
        by (cases "execute_poll P cfg (Suc n) w1")
      obtain t2 w3 where t2: "py_time P w2 = (t2, w3)" by (cases "py_time P w2")
      note step = loop_inv_step[OF inv poll]
      show "exit_inv cfg ex"
        using "1"(2) IH[of "Suc n" "rs @ new" _ y ex w'] inv step
        by (auto simp: t0 t1 poll t2 y exit_inv_def split: if_splits sum.splits)
    qed
    then show ?case by auto
  qed
  then show ?thesis by simp
qed

lemma build_result_fields:
  "status (build_result cfg st rs n secs reason) = st"
  "total_polls (build_result cfg st rs n secs reason) = n"
  "duration (build_result cfg st rs n secs reason) = secs"
  "failure_reason (build_result cfg st rs n secs reason) = reason"
  "detailed_results (build_result cfg st rs n secs reason)
     = (if include_details (output_options cfg) then rs else [])"
  "checks_passed (build_result cfg st rs n secs reason)
     = length (filter success (get_latest_results rs n))"
  "checks_failed (build_result cfg st rs n secs reason)
     = length (filter (\<lambda>x. \<not> success x) (get_latest_results rs n))"
proof -
  have "length (get_latest_results rs n) - length (filter success (get_latest_results rs n))
          = length (filter (\<lambda>x. \<not> success x) (get_latest_results rs n))"
    using sum_length_filter_compl[of success "get_latest_results rs n"] by arith
  then show "checks_failed (build_result cfg st rs n secs reason)
     = length (filter (\<lambda>x. \<not> success x) (get_latest_results rs n))"
    by (simp add: build_result_def Let_def)
qed (simp_all add: build_result_def Let_def)

lemma run_exit:
  assumes "run P cfg w = Some (Inr r, w')"
  obtains ex s w0 w1 where
    "py_time P w = (s, w0)"
    "poll_loop P cfg s (s + real_of_int (timeout cfg)) 0 [] w0 = Some (Inr ex, w1)"
    "total_polls r = exit_polls ex"
    "detailed_results r = (if include_details (output_options cfg) then exit_results ex else [])"
    "(status r = TIMEOUT) = (\<exists>n. ex = Loop_ended [] n)"
    "(status r = TIMEOUT) = (failure_reason r = Some ''Timeout before any polls completed'')"
proof -
  obtain s w0 where s: "py_time P w = (s, w0)" by (cases "py_time P w")
  obtain e where "float_plus_int s (timeout cfg) = Inr e"
    using assms by (cases "float_plus_int s (timeout cfg)") (auto simp: run_def s)
  then have e: "float_plus_int s (timeout cfg) = Inr (s + real_of_int (timeout cfg))"
    using float_plus_int_sum by blast
  obtain y where y: "poll_loop P cfg s (s + real_of_int (timeout cfg)) 0 [] w0 = Some y"
    using assms by (auto simp: run_def s e split: option.splits)
  obtain ex w1 where ex: "y = (Inr ex, w1)"
    using assms by (cases y; cases "fst y") (auto simp: run_def s e y)
  obtain t w2 where t: "py_time P w1 = (t, w2)" by (cases "py_time P w1")
  have "total_polls r = exit_polls ex
      \<and> detailed_results r = (if include_details (output_options cfg) then exit_results ex else [])
      \<and> (status r = TIMEOUT) = (\<exists>n. ex = Loop_ended [] n)
      \<and> (status r = TIMEOUT) = (failure_reason r = Some ''Timeout before any polls completed'')"
    using assms
    by (cases ex) (auto simp: run_def s e y ex t Let_def build_result_fields split: if_splits)
  then show thesis using that[OF s y[unfolded ex]] by blast
qed

lemma two_failed_polls:
  "poll_loop sim (test_config [error_count_check] ALL_PASS None details 3) 0 (0 + real_of_int 3) 0 []
       (sim_start [Inr (prometheus ''50''), Inr (prometheus ''50'')])
     = Some (Inr (Loop_ended [too_many_errors 1 1, too_many_errors 3 2] 2),
             \<lparr>sim_clock = 3, sim_queue = []\<rparr>)"
  by (simp add: poll_loop.simps sim_defs verifier_defs text_defs too_many_errors_def)

text \<open>
  Claim C5. In the cumulative list of results of a run, the results with a given poll
  number are one for each configured check, in their order, when the number is between
  1 and the number of polls, and there are none with another number; the poll numbers
  of the list are 1 for each check, then 2 for each check, and so on. This is
  \<open>loop_inv\<close>: it holds of the empty list before the first poll, each poll keeps it,
  and so it holds when the loop is left. The same holds of the detailed results that
  \<^verbatim>\<open>run\<close> returns when details are included.
\<close>

theorem cumulative_results_complete:
  "loop_inv cfg [] 0
   \<and> (loop_inv cfg rs n \<and> execute_poll P cfg (Suc n) v = (new, v') \<longrightarrow>
        loop_inv cfg (rs @ new) (Suc n))
   \<and> (poll_loop P cfg start_time end_time 0 [] w = Some (Inr ex, w') \<longrightarrow>
      (\<forall>p. map check_name (get_latest_results (exit_results ex) p)
             = (if 1 \<le> p \<and> p \<le> exit_polls ex then map name (checks cfg) else []))
      \<and> map poll_number (exit_results ex)
           = concat (map (replicate (length (checks cfg))) [1..<Suc (exit_polls ex)]))
   \<and> (run P cfg w = Some (Inr r, w'') \<and> include_details (output_options cfg) \<longrightarrow>
      (\<forall>p. map check_name (get_latest_results (detailed_results r) p)
             = (if 1 \<le> p \<and> p \<le> total_polls r then map name (checks cfg) else []))
      \<and> map poll_number (detailed_results r)
           = concat (map (replicate (length (checks cfg))) [1..<Suc (total_polls r)]))"
proof (intro conjI impI)
  show "loop_inv cfg [] 0" by (rule loop_inv_start)
next
  assume "loop_inv cfg rs n \<and> execute_poll P cfg (Suc n) v = (new, v')"
  then show "loop_inv cfg (rs @ new) (Suc n)" by (blast intro: loop_inv_step)
next
  assume loop: "poll_loop P cfg start_time end_time 0 [] w = Some (Inr ex, w')"
  have "exit_inv cfg ex"
    using poll_loop_exit_inv[OF loop] loop_inv_start by blast
  then show
    "\<forall>p. map check_name (get_latest_results (exit_results ex) p)
           = (if 1 \<le> p \<and> p \<le> exit_polls ex then map name (checks cfg) else [])"
    "map poll_number (exit_results ex)
       = concat (map (replicate (length (checks cfg))) [1..<Suc (exit_polls ex)])"
    by (simp_all add: exit_inv_def loop_inv_def)
next
  assume run: "run P cfg w = Some (Inr r, w'') \<and> include_details (output_options cfg)"
  then obtain ex' s w0 w1 where
    loop: "poll_loop P cfg s (s + real_of_int (timeout cfg)) 0 [] w0 = Some (Inr ex', w1)"
    and r: "total_polls r = exit_polls ex'" "detailed_results r = exit_results ex'"
    by (auto elim: run_exit)
  have "exit_inv cfg ex'"
    using poll_loop_exit_inv[OF loop] loop_inv_start by blast
  then show
    "\<forall>p. map check_name (get_latest_results (detailed_results r) p)
           = (if 1 \<le> p \<and> p \<le> total_polls r then map name (checks cfg) else [])"
    "map poll_number (detailed_results r)
       = concat (map (replicate (length (checks cfg))) [1..<Suc (total_polls r)])"
    by (simp_all add: exit_inv_def loop_inv_def r)
qed

theorem cumulative_results_complete_witness:
  "poll_loop sim (test_config [error_count_check] ALL_PASS None True 3) 0 (0 + real_of_int 3) 0 []
       (sim_start [Inr (prometheus ''50''), Inr (prometheus ''50'')])
     = Some (Inr (Loop_ended [too_many_errors 1 1, too_many_errors 3 2] 2),
             \<lparr>sim_clock = 3, sim_queue = []\<rparr>)
   \<and> map check_name (get_latest_results [too_many_errors 1 1, too_many_errors 3 2] 1)
       = [''error_count_check'']
   \<and> map check_name (get_latest_results [too_many_errors 1 1, too_many_errors 3 2] 2)
       = [''error_count_check'']
   \<and> map check_name (get_latest_results [too_many_errors 1 1, too_many_errors 3 2] 3) = []
   \<and> map poll_number [too_many_errors 1 1, too_many_errors 3 2] = [1, 2]"
proof -
  note h = two_failed_polls[of True]
  note c = cumulative_results_complete[
      where P = sim and cfg = "test_config [error_count_check] ALL_PASS None True 3"
        and start_time = 0 and end_time = "0 + real_of_int 3"
        and w = "sim_start [Inr (prometheus ''50''), Inr (prometheus ''50'')]"
        and ex = "Loop_ended [too_many_errors 1 1, too_many_errors 3 2] 2"
        and w' = "\<lparr>sim_clock = 3, sim_queue = []\<rparr>",
      THEN conjunct2, THEN conjunct2, THEN conjunct1, rule_format, OF h]
  have names: "map name (checks (test_config [error_count_check] ALL_PASS None True 3))
                 = [''error_count_check'']"
    by (simp add: test_config_def error_count_check_def)
  have one: "length (checks (test_config [error_count_check] ALL_PASS None True 3)) = 1"
    by (simp add: test_config_def)
  have "[1..<Suc 2] = [1, 2]" by (simp add: upt_rec)
  then show ?thesis
    using h c[THEN conjunct1, rule_format, of 1] c[THEN conjunct1, rule_format, of 2]
      c[THEN conjunct1, rule_format, of 3] c[THEN conjunct2]
    by (simp add: names one)
qed

text \<open>
  Claim C4. With at least one configured check, a run that returns has the status
  TIMEOUT exactly when no poll completed, which is when the loop ended with an empty
  cumulative list, and exactly when its reason is
  \<^verbatim>\<open>Timeout before any polls completed\<close>; and \<^verbatim>\<open>_evaluate_overall\<close> never
  returns TIMEOUT.
\<close>

theorem timeout_iff_no_poll:
  assumes "checks cfg \<noteq> []" and "run P cfg w = Some (Inr r, w')"
  shows "(status r = TIMEOUT) = (total_polls r = 0)
       \<and> (status r = TIMEOUT)
            = (\<exists>s w0 n w1. py_time P w = (s, w0)
                 \<and> poll_loop P cfg s (s + real_of_int (timeout cfg)) 0 [] w0
                      = Some (Inr (Loop_ended [] n), w1))
       \<and> (status r = TIMEOUT) = (failure_reason r = Some ''Timeout before any polls completed'')
       \<and> fst (evaluate_overall cfg poll_results) \<noteq> TIMEOUT"
proof -
  obtain ex s w0 w1 where
    s: "py_time P w = (s, w0)"
    and loop: "poll_loop P cfg s (s + real_of_int (timeout cfg)) 0 [] w0 = Some (Inr ex, w1)"
    and r: "total_polls r = exit_polls ex"
      "(status r = TIMEOUT) = (\<exists>n. ex = Loop_ended [] n)"
      "(status r = TIMEOUT) = (failure_reason r = Some ''Timeout before any polls completed'')"
    using assms(2) by (auto elim: run_exit)
  have inv: "exit_inv cfg ex"
    using poll_loop_exit_inv[OF loop] loop_inv_start by blast
  have a: "(status r = TIMEOUT) = (total_polls r = 0)"
    using inv assms(1) by (cases ex) (auto simp: r exit_inv_def loop_inv_def)
  have b: "(status r = TIMEOUT)
            = (\<exists>s w0 n w1. py_time P w = (s, w0)
                 \<and> poll_loop P cfg s (s + real_of_int (timeout cfg)) 0 [] w0
                      = Some (Inr (Loop_ended [] n), w1))"
    using s loop by (auto simp: r(2))
  have c: "fst (evaluate_overall cfg poll_results) \<noteq> TIMEOUT"
    by (simp add: evaluate_overall_def Let_def)
  from a b c r(3) show ?thesis by blast
qed

theorem timeout_iff_no_poll_witness:
  "checks (test_config [error_count_check] ALL_PASS None True 0) \<noteq> []
   \<and> (\<exists>r w'. run sim (test_config [error_count_check] ALL_PASS None True 0) (sim_start [])
                = Some (Inr r, w')
         \<and> status r = TIMEOUT \<and> total_polls r = 0
         \<and> failure_reason r = Some ''Timeout before any polls completed'')
   \<and> checks (test_config [error_count_check] ALL_PASS None True 3) \<noteq> []
   \<and> (\<exists>r w'. run sim (test_config [error_count_check] ALL_PASS None True 3)
                (sim_start [Inr (prometheus ''50''), Inr (prometheus ''50'')])
                = Some (Inr r, w')
         \<and> status r = FAILED \<and> total_polls r = 2
         \<and> failure_reason r \<noteq> Some ''Timeout before any polls completed'')"
proof -
  let ?r0 = "\<lparr>status = TIMEOUT, checks_passed = 0, checks_failed = 0, total_polls = 0,
              duration = 0, detailed_results = [],
              failure_reason = Some ''Timeout before any polls completed''\<rparr>"
  let ?r3 = "\<lparr>status = FAILED, checks_passed = 0, checks_failed = 1, total_polls = 2,
              duration = 3, detailed_results = [too_many_errors 1 1, too_many_errors 3 2],
              failure_reason = Some ''Checks did not pass within timeout (3s)''\<rparr>"
  have a: "checks (test_config [error_count_check] ALL_PASS None True 0) \<noteq> []"
    and b: "checks (test_config [error_count_check] ALL_PASS None True 3) \<noteq> []"
    by (simp_all add: test_config_def)
  have ra: "run sim (test_config [error_count_check] ALL_PASS None True 0) (sim_start [])
              = Some (Inr ?r0, sim_start [])"
    by (simp add: run_def poll_loop.simps sim_defs verifier_defs text_defs)
  have rb: "run sim (test_config [error_count_check] ALL_PASS None True 3)
              (sim_start [Inr (prometheus ''50''), Inr (prometheus ''50'')])
              = Some (Inr ?r3, \<lparr>sim_clock = 3, sim_queue = []\<rparr>)"
    by (simp add: run_def poll_loop.simps sim_defs verifier_defs text_defs too_many_errors_def)
  have st: "status ?r0 = TIMEOUT" "status ?r3 = FAILED" by simp_all
  have "total_polls ?r0 = 0"
    and "failure_reason ?r0 = Some ''Timeout before any polls completed''"
    using timeout_iff_no_poll[OF a ra, of "[]"] st(1) by simp_all
  moreover have "total_polls ?r3 \<noteq> 0"
    and "failure_reason ?r3 \<noteq> Some ''Timeout before any polls completed''"
    using timeout_iff_no_poll[OF b rb, of "[]"] st(2) by simp_all
  ultimately show ?thesis
    using a b ra rb by simp
qed

text \<open>
  Claim C1, as the code has it. When the end time \<^verbatim>\<open>start_time + timeout\<close> has been
  computed and the loop of \<^verbatim>\<open>run\<close> comes to an end, \<^verbatim>\<open>run\<close> returns a result. Its counts of passed and failed checks are those of the results
  whose poll number is the number of polls, which are the results of the last poll, one
  for each check. Its detailed results are the whole cumulative list when the output
  configuration includes details, and empty when it does not. When the loop ended
  without a poll that passed and after at least one poll, the status is PASSED if these
  last results evaluate to PASSED and FAILED otherwise, with the reason
  \<^verbatim>\<open>Checks did not pass within timeout (<duration>s)\<close>.
\<close>

theorem final_status_from_last_poll:
  assumes "py_time P w = (start_time, w0)"
    and "float_plus_int start_time (timeout cfg) = Inr end_time"
    and "poll_loop P cfg start_time end_time 0 [] w0 = Some (Inr ex, w1)"
  shows "\<exists>r w'. run P cfg w = Some (Inr r, w')
      \<and> total_polls r = exit_polls ex
      \<and> checks_passed r
           = length (filter success (get_latest_results (exit_results ex) (exit_polls ex)))
      \<and> checks_failed r
           = length (filter (\<lambda>x. \<not> success x)
               (get_latest_results (exit_results ex) (exit_polls ex)))
      \<and> map check_name (get_latest_results (exit_results ex) (exit_polls ex))
           = (if exit_polls ex = 0 then [] else map name (checks cfg))
      \<and> detailed_results r
           = (if include_details (output_options cfg) then exit_results ex else [])
      \<and> (\<forall>rs n. ex = Loop_ended rs n \<and> 0 < n \<and> checks cfg \<noteq> [] \<longrightarrow>
            status r = (if fst (evaluate_overall cfg (get_latest_results rs n)) = PASSED
                        then PASSED else FAILED)
            \<and> failure_reason r
                 = (if status r = PASSED then None
                    else Some (''Checks did not pass within timeout ('' @ str_int (duration r)
                                 @ ''s)'')))"
proof -
  have inv: "exit_inv cfg ex"
    using poll_loop_exit_inv[OF assms(3)] loop_inv_start by blast
  then have last: "map check_name (get_latest_results (exit_results ex) (exit_polls ex))
           = (if exit_polls ex = 0 then [] else map name (checks cfg))"
    by (auto simp: exit_inv_def loop_inv_def)
  have some: "exit_results ex \<noteq> []" if "0 < exit_polls ex" "checks cfg \<noteq> []"
    using inv that by (auto simp: exit_inv_def loop_inv_def)
  obtain t w2 where t: "py_time P w1 = (t, w2)" by (cases "py_time P w1")
  show ?thesis
    using last some
    by (cases ex) (auto simp: run_def assms t Let_def build_result_fields)
qed

theorem final_status_from_last_poll_witness:
  "py_time sim (sim_start [Inr (prometheus ''50''), Inr (prometheus ''50'')])
     = (0, sim_start [Inr (prometheus ''50''), Inr (prometheus ''50'')])
   \<and> float_plus_int 0 (timeout (test_config [error_count_check] ALL_PASS None True 3))
     = Inr (0 + real_of_int 3)
   \<and> poll_loop sim (test_config [error_count_check] ALL_PASS None True 3) 0 (0 + real_of_int 3) 0 []
       (sim_start [Inr (prometheus ''50''), Inr (prometheus ''50'')])
     = Some (Inr (Loop_ended [too_many_errors 1 1, too_many_errors 3 2] 2),
             \<lparr>sim_clock = 3, sim_queue = []\<rparr>)
   \<and> (\<exists>r w'. run sim (test_config [error_count_check] ALL_PASS None True 3)
                (sim_start [Inr (prometheus ''50''), Inr (prometheus ''50'')]) = Some (Inr r, w')
         \<and> status r = FAILED \<and> checks_passed r = 0 \<and> checks_failed r = 1 \<and> total_polls r = 2
         \<and> detailed_results r = [too_many_errors 1 1, too_many_errors 3 2]
         \<and> failure_reason r
              = Some (''Checks did not pass within timeout ('' @ str_int (duration r) @ ''s)''))"
proof -
  have t: "py_time sim (sim_start [Inr (prometheus ''50''), Inr (prometheus ''50'')])
     = (0, sim_start [Inr (prometheus ''50''), Inr (prometheus ''50'')])"
    by (simp add: sim_def sim_start_def)
  note h = two_failed_polls[of True]
  have tm: "float_plus_int 0 (timeout (test_config [error_count_check] ALL_PASS None True 3))
              = Inr (0 + real_of_int 3)"
    by (simp add: test_config_def float_plus_int_small)
  note c = final_status_from_last_poll[OF t tm h]
  from c show ?thesis
    using t tm h
    by (auto simp: get_latest_results_def too_many_errors_def evaluate_overall_def
          test_config_def Let_def)
qed

text \<open>
  Two polls fail and the output configuration leaves details out: the result holds no
  result of either poll.
\<close>

theorem final_status_from_last_poll_counterexample:
  "run sim (test_config [error_count_check] ALL_PASS None False 3)
       (sim_start [Inr (prometheus ''50''), Inr (prometheus ''50'')])
     = Some (Inr \<lparr>status = FAILED, checks_passed = 0, checks_failed = 1, total_polls = 2,
                  duration = 3, detailed_results = [],
                  failure_reason = Some ''Checks did not pass within timeout (3s)''\<rparr>,
             \<lparr>sim_clock = 3, sim_queue = []\<rparr>)"
  by (simp add: run_def poll_loop.simps sim_defs verifier_defs text_defs)

section \<open>Further properties of \<^verbatim>\<open>run\<close>\<close>

lemma latest_after_poll:
  assumes "loop_inv cfg rs n" and "execute_poll P cfg (Suc n) w = (new, w')"
  shows "get_latest_results (rs @ new) (Suc n) = new"
proof -
  note tags = execute_poll_tags[OF assms(2)]
  have "map check_name (get_latest_results rs (Suc n)) = []"
    using assms(1) by (simp add: loop_inv_def)
  then have "filter (\<lambda>r. poll_number r = Suc n) rs = []"
    by (simp add: get_latest_results_def)
  moreover have "filter (\<lambda>r. poll_number r = Suc n) new = new"
    using tags(2) by (simp add: filter_id_conv)
  ultimately show ?thesis by (simp add: get_latest_results_def)
qed

lemma poll_loop_exit_verdict:
  assumes "poll_loop P cfg s e n rs w = Some y"
  shows "loop_inv cfg rs n \<and> not_passed cfg rs n \<longrightarrow>
           (\<forall>ex w'. y = (Inr ex, w') \<longrightarrow> exit_verdict cfg ex)"
proof -
  have "(case ((((((P, cfg), s), e), n), rs), w) of
          ((((((P, cfg), s), e), n), rs), w) \<Rightarrow>
            \<lambda>y. loop_inv cfg rs n \<and> not_passed cfg rs n \<longrightarrow>
                   (\<forall>ex w'. y = (Inr ex, w') \<longrightarrow> exit_verdict cfg ex)) y"
  proof (rule poll_loop.raw_induct[OF _ assms], goal_cases)
    case (1 loop P cfg s e n rs w y)
    have IH: "loop P cfg s e n' rs' w' = Some y' \<Longrightarrow> loop_inv cfg rs' n'
                \<Longrightarrow> not_passed cfg rs' n' \<Longrightarrow> y' = (Inr ex, w'') \<Longrightarrow> exit_verdict cfg ex"
      for n' rs' w' y' ex w''
      using "1"(1)[of P cfg s e n' rs' w' y'] by simp
    have "exit_verdict cfg ex"
      if inv: "loop_inv cfg rs n" and last: "not_passed cfg rs n" and y: "y = (Inr ex, w')"
      for ex w'
    proof -
      obtain t0 w0 where t0: "py_time P w = (t0, w0)" by (cases "py_time P w")
      obtain t1 w1 where t1: "py_time P w0 = (t1, w1)" by (cases "py_time P w0")
      obtain new w2 where poll: "execute_poll P cfg (Suc n) w1 = (new, w2)"
        by (cases "execute_poll P cfg (Suc n) w1")
      obtain t2 w3 where t2: "py_time P w2 = (t2, w3)" by (cases "py_time P w2")
      note step = loop_inv_step[OF inv poll]
      note latest = latest_after_poll[OF inv poll]
      have next_ok: "fst (evaluate_overall cfg new) \<noteq> PASSED \<Longrightarrow> not_passed cfg (rs @ new) (Suc n)"
        by (simp add: not_passed_def latest)
      have passed_ok: "fst (evaluate_overall cfg new) = PASSED
                         \<Longrightarrow> exit_verdict cfg (Passed_in_loop (rs @ new) (Suc n) d)" for d
        by (simp add: exit_verdict_def latest)
      have ended_ok: "fst (evaluate_overall cfg new) \<noteq> PASSED
                         \<Longrightarrow> exit_verdict cfg (Loop_ended (rs @ new) (Suc n))"
        using next_ok by (simp add: exit_verdict_def)
      have stay: "exit_verdict cfg (Loop_ended rs n)"
        using last by (simp add: exit_verdict_def)
      show "exit_verdict cfg ex"
        using "1"(2) IH[of "Suc n" "rs @ new" _ y ex w'] step next_ok passed_ok ended_ok stay
        by (auto simp: t0 t1 poll t2 y split: if_splits sum.splits)
    qed
    then show ?case by auto
  qed
  then show ?thesis by simp
qed

text \<open>
  When the loop comes to an end without a poll that passed, the last poll did not pass,
  so evaluating it again never gives PASSED: the run is FAILED after at least one
  result and TIMEOUT with none.
\<close>

theorem loop_end_never_passes:
  assumes "py_time P w = (s, w0)"
    and "float_plus_int s (timeout cfg) = Inr e"
    and "poll_loop P cfg s e 0 [] w0 = Some (Inr (Loop_ended rs n), w1)"
  shows "\<exists>r w'. run P cfg w = Some (Inr r, w')
           \<and> status r = (if rs = [] then TIMEOUT else FAILED)
           \<and> fst (evaluate_overall cfg (get_latest_results rs n))
                = (if n = 0 then fst (evaluate_overall cfg []) else FAILED)"
proof -
  have inv: "exit_inv cfg (Loop_ended rs n)"
    using poll_loop_exit_inv[OF assms(3)] loop_inv_start by blast
  have "not_passed cfg [] 0" by (simp add: not_passed_def)
  then have "exit_verdict cfg (Loop_ended rs n)"
    using poll_loop_exit_verdict[OF assms(3)] loop_inv_start by blast
  then have last: "n = 0 \<or> fst (evaluate_overall cfg (get_latest_results rs n)) \<noteq> PASSED"
    by (simp add: exit_verdict_def not_passed_def)
  have len: "length rs = n * length (checks cfg)"
    using inv by (simp add: exit_inv_def loop_inv_def)
  have n: "rs \<noteq> [] \<Longrightarrow> n \<noteq> 0"
    using len by (cases n) auto
  have zero: "n = 0 \<Longrightarrow> get_latest_results rs n = []"
    using len by (simp add: get_latest_results_def)
  have two: "st \<noteq> PASSED \<Longrightarrow> st \<noteq> TIMEOUT \<Longrightarrow> st = FAILED" for st
    by (cases st) auto
  have never: "fst (evaluate_overall cfg xs) \<noteq> TIMEOUT" for xs
    by (simp add: evaluate_overall_def Let_def)
  obtain t w2 where t: "py_time P w1 = (t, w2)" by (cases "py_time P w1")
  show ?thesis
    using last n zero two[OF _ never]
    by (auto simp: run_def assms t Let_def build_result_fields)
qed

theorem loop_end_never_passes_witness:
  "py_time sim (sim_start [Inr (prometheus ''50''), Inr (prometheus ''50'')])
     = (0, sim_start [Inr (prometheus ''50''), Inr (prometheus ''50'')])
   \<and> float_plus_int 0 (timeout (test_config [error_count_check] ALL_PASS None True 3))
     = Inr (0 + real_of_int 3)
   \<and> poll_loop sim (test_config [error_count_check] ALL_PASS None True 3) 0 (0 + real_of_int 3) 0 []
       (sim_start [Inr (prometheus ''50''), Inr (prometheus ''50'')])
     = Some (Inr (Loop_ended [too_many_errors 1 1, too_many_errors 3 2] 2),
             \<lparr>sim_clock = 3, sim_queue = []\<rparr>)
   \<and> (\<exists>r w'. run sim (test_config [error_count_check] ALL_PASS None True 3)
                (sim_start [Inr (prometheus ''50''), Inr (prometheus ''50'')]) = Some (Inr r, w')
         \<and> status r = FAILED)"
proof -
  have t: "py_time sim (sim_start [Inr (prometheus ''50''), Inr (prometheus ''50'')])
     = (0, sim_start [Inr (prometheus ''50''), Inr (prometheus ''50'')])"
    by (simp add: sim_def sim_start_def)
  note h = two_failed_polls[of True]
  have tm: "float_plus_int 0 (timeout (test_config [error_count_check] ALL_PASS None True 3))
              = Inr (0 + real_of_int 3)"
    by (simp add: test_config_def float_plus_int_small)
  note c = loop_end_never_passes[OF t tm h]
  from c show ?thesis using t tm h by auto
qed

text \<open>
  The scenario of \<^verbatim>\<open>test_polling_until_pass\<close>: the responses 50, 20 and 5 against
  the threshold \<^verbatim>\<open>< 10\<close>, polling every second for at most ten: the run passes at
  the third poll, and counts the checks of that poll only.
\<close>

theorem passes_at_third_poll:
  "run sim
      (\<lparr>api_endpoint = ''http://prometheus:9090'', checks = [error_count_check],
        evaluation = \<lparr>mode = ALL_PASS, min_passed = None\<rparr>,
        output_options = \<lparr>include_details = False, format = ''json''\<rparr>,
        poll_interval = 1, timeout = 10\<rparr>)
      (sim_start [Inr (prometheus ''50''), Inr (prometheus ''20''), Inr (prometheus ''5'')])
     = Some (Inr \<lparr>status = PASSED, checks_passed = 1, checks_failed = 0, total_polls = 3,
                  duration = 5, detailed_results = [], failure_reason = None\<rparr>,
             \<lparr>sim_clock = 5, sim_queue = []\<rparr>)"
  by (simp add: run_def poll_loop.simps sim_defs verifier_defs text_defs)

text \<open>
  The scenario of \<^verbatim>\<open>test_simple_threshold_pass\<close>: the first poll passes, and the
  run returns after one poll.
\<close>

theorem passes_at_first_poll:
  "run sim (test_config [error_count_check] ALL_PASS None True 5)
       (sim_start [Inr (prometheus ''5'')])
     = Some (Inr \<lparr>status = PASSED, checks_passed = 1, checks_failed = 0, total_polls = 1,
                  duration = 1,
                  detailed_results =
                    [\<lparr>check_name = ''error_count_check'', success = True,
                      result_value = PFloat (Finite 5), expected = PStr ''< 10'',
                      message = ''value 5.0 < 10'', timestamp = 1, poll_number = 1\<rparr>],
                  failure_reason = None\<rparr>,
             \<lparr>sim_clock = 1, sim_queue = []\<rparr>)"
  by (simp add: run_def poll_loop.simps sim_defs verifier_defs text_defs)

section \<open>Termination\<close>

lemma execute_check_clock:
  assumes "steady_clock P now"
  shows "now w \<le> now (snd (execute_check P chk n w))"
proof -
  have req: "now w \<le> now (snd (http_request P (query chk) w))"
    using assms by (simp add: steady_clock_def)
  have stamp: "now w' \<le> now (snd (py_now P w'))" for w'
    using assms by (simp add: steady_clock_def)
  show ?thesis
    using req stamp[of "snd (http_request P (query chk) w)"]
    by (auto simp: execute_check_def split: prod.splits sum.splits)
qed

lemma poll_checks_clock:
  assumes "steady_clock P now"
  shows "now w \<le> now (snd (poll_checks P chks n acc w))"
proof (induction chks arbitrary: acc w)
  case Nil
  show ?case by simp
next
  case (Cons chk rest)
  have stamp: "now w' \<le> now (snd (py_now P w'))" for w'
    using assms by (simp add: steady_clock_def)
  obtain out w1 where c: "execute_check P chk n w = (out, w1)"
    by (cases "execute_check P chk n w")
  have w1: "now w \<le> now w1"
    using execute_check_clock[OF assms, of w chk n] by (simp add: c)
  show ?case
  proof (cases out)
    case (Inr r)
    then show ?thesis
      using w1 Cons.IH[where acc = "acc @ [r]" and w = w1] by (simp add: c)
  next
    case (Inl x)
    obtain ts w2 where s: "py_now P w1 = (ts, w2)" by (cases "py_now P w1")
    have "now w1 \<le> now w2" using stamp[of w1] by (simp add: s)
    then show ?thesis
      using w1 Inl Cons.IH[where acc = "acc @ [error_result chk x ts n]" and w = w2]
      by (simp add: c s)
  qed
qed

lemma poll_loop_returns:
  assumes "steady_clock P now" and "0 < poll_interval cfg"
    and "poll_interval cfg \<le> 9223372036"
  shows "\<exists>ex w'. poll_loop P cfg s e n rs w = Some (Inr ex, w')"
proof (induction "nat \<lceil>e - now w\<rceil>" arbitrary: n rs w rule: less_induct)
  case less
  obtain t0 w0 where t0: "py_time P w = (t0, w0)" by (cases "py_time P w")
  obtain t1 w1 where t1: "py_time P w0 = (t1, w1)" by (cases "py_time P w0")
  obtain new w2 where poll: "execute_poll P cfg (Suc n) w1 = (new, w2)"
    by (cases "execute_poll P cfg (Suc n) w1")
  obtain t3 w3 where t3: "py_time P w2 = (t3, w3)" by (cases "py_time P w2")
  have read: "now v \<le> fst (py_time P v) \<and> fst (py_time P v) \<le> now (snd (py_time P v))" for v
    using assms(1) by (simp add: steady_clock_def)
  have a: "now w \<le> t0" "t0 \<le> now w0" using read[of w] by (simp_all add: t0)
  have b: "now w0 \<le> now w1" using read[of w0] by (simp add: t1)
  have c: "now w1 \<le> now w2"
    using poll_checks_clock[OF assms(1), of w1 "checks cfg" "Suc n" "[]"] poll
    by (simp add: execute_poll_def)
  have d: "now w2 \<le> t3" "t3 \<le> now w3" using read[of w2] by (simp_all add: t3)
  have slept: "now w3 + real_of_int (poll_interval cfg) \<le> now (py_sleep P (poll_interval cfg) w3)"
    using assms by (simp add: steady_clock_def)
  have next_time: "float_plus_int t3 (poll_interval cfg) = Inr (t3 + real_of_int (poll_interval cfg))"
    using assms(2,3) by (simp add: float_plus_int_small)
  show ?case
  proof (cases "t0 < e \<and> fst (evaluate_overall cfg new) \<noteq> PASSED
                  \<and> t3 + real_of_int (poll_interval cfg) < e")
    case False
    then show ?thesis
      by (subst poll_loop.simps) (auto simp: t0 t1 poll t3 next_time)
  next
    case True
    let ?w4 = "py_sleep P (poll_interval cfg) w3"
    have "now w + 1 \<le> now ?w4"
      using a b c d slept assms(2) by linarith
    moreover have "now w < e" using a True by linarith
    ultimately have "nat \<lceil>e - now ?w4\<rceil> < nat \<lceil>e - now w\<rceil>"
      by linarith
    then obtain ex w' where "poll_loop P cfg s e (Suc n) (rs @ new) ?w4 = Some (Inr ex, w')"
      using less[of ?w4 "Suc n" "rs @ new"] by blast
    then show ?thesis
      using True assms(2,3)
      by (subst poll_loop.simps) (auto simp: t0 t1 poll t3 next_time time_sleep_def)
  qed
qed

text \<open>
  With a clock that does not go back, a timeout within the range of a double and a
  poll interval of at least one second whose nanoseconds fit 64 bits, the loop sleeps
  at most once for each second of the timeout, and \<^verbatim>\<open>run\<close> returns a result: it
  neither goes on for ever nor raises.
\<close>

theorem run_returns:
  assumes "steady_clock P now" and "0 < poll_interval cfg"
    and "poll_interval cfg \<le> 9223372036" and "float_of_int (timeout cfg) = Inr f"
  shows "\<exists>r w'. run P cfg w = Some (Inr r, w')"
proof -
  obtain s w0 where s: "py_time P w = (s, w0)" by (cases "py_time P w")
  have e: "float_plus_int s (timeout cfg) = Inr (s + real_of_int (timeout cfg))"
    using assms(4) by (simp add: float_plus_int_def)
  obtain ex w1 where y: "poll_loop P cfg s (s + real_of_int (timeout cfg)) 0 [] w0 = Some (Inr ex, w1)"
    using poll_loop_returns[OF assms(1-3)] by blast
  obtain t w2 where t: "py_time P w1 = (t, w2)" by (cases "py_time P w1")
  show ?thesis
    by (cases ex) (auto simp: run_def s e y t Let_def)
qed

lemma sim_steady: "steady_clock sim sim_clock"
  by (auto simp: steady_clock_def sim_def sim_request_def split: list.splits)

theorem run_returns_witness:
  "steady_clock sim sim_clock
   \<and> 0 < poll_interval (test_config [error_count_check] ALL_PASS None True 3)
   \<and> poll_interval (test_config [error_count_check] ALL_PASS None True 3) \<le> 9223372036
   \<and> float_of_int (timeout (test_config [error_count_check] ALL_PASS None True 3))
        = Inr (Finite 3)
   \<and> (\<exists>r w'. run sim (test_config [error_count_check] ALL_PASS None True 3) (sim_start [])
                = Some (Inr r, w'))"
proof -
  have p: "0 < poll_interval (test_config [error_count_check] ALL_PASS None True 3)"
    and q: "poll_interval (test_config [error_count_check] ALL_PASS None True 3) \<le> 9223372036"
    and f: "float_of_int (timeout (test_config [error_count_check] ALL_PASS None True 3))
              = Inr (Finite 3)"
    by (simp_all add: test_config_def float_of_int_small)
  show ?thesis
    using sim_steady p q f run_returns[OF sim_steady p q f, of "sim_start []"] by blast
qed

end
